theory Spec2Isabelle
  imports Main
begin

section \<open>Strings and characters\<close>

text \<open>
  The action is TypeScript; its strings are modelled as HOL strings (lists of
  characters), one list element per string index.  The only characters the code
  tests for are ASCII: the double quote, the single quote, the space and the slash.
\<close>

definition dquote :: char where
  "dquote = CHR 0x22"

definition squote :: char where
  "squote = CHR 0x27"

definition space :: char where
  "space = CHR 0x20"

section \<open>parseShellArgs\<close>

text \<open>
  The loop of \<open>parseShellArgs\<close> over the indices of \<open>input\<close>, with the four local
  variables \<open>args\<close>, \<open>current\<close>, \<open>inQuote\<close> and \<open>quoteChar\<close> as arguments.  \<open>quoteChar\<close>
  is a string in the source (empty when no quote is open) and stays one here; the
  character read, \<open>input[i]\<close>, is the one-element string \<open>[c]\<close>.  The loop returns
  the \<open>args\<close> and the \<open>current\<close> it ends with.
\<close>

fun parse_loop :: "string list \<Rightarrow> string \<Rightarrow> bool \<Rightarrow> string \<Rightarrow> string \<Rightarrow> string list \<times> string" where
  "parse_loop args current inQuote quoteChar [] = (args, current)"
| "parse_loop args current inQuote quoteChar (c # rest) =
     (if (c = dquote \<or> c = squote) \<and> \<not> inQuote then
        parse_loop args current True [c] rest
      else if [c] = quoteChar \<and> inQuote then
        parse_loop args current False [] rest
      else if c = space \<and> \<not> inQuote then
        (if current \<noteq> [] then parse_loop (args @ [current]) [] inQuote quoteChar rest
         else parse_loop args current inQuote quoteChar rest)
      else parse_loop args (current @ [c]) inQuote quoteChar rest)"

definition parseShellArgs :: "string \<Rightarrow> string list" where
  "parseShellArgs input =
     (case parse_loop [] [] False [] input of
        (args, current) \<Rightarrow> if current \<noteq> [] then args @ [current] else args)"

text \<open>\<open>Array.prototype.join\<close> with the separator \<open>' '\<close>.\<close>

fun join_space :: "string list \<Rightarrow> string" where
  "join_space [] = []"
| "join_space [t] = t"
| "join_space (t # u # ts) = t @ space # join_space (u # ts)"

text \<open>The last statements of \<open>parseShellArgs\<close>, applied to what the loop returns.\<close>

definition finish :: "string list \<times> string \<Rightarrow> string list" where
  "finish r = (case r of (args, current) \<Rightarrow> if current \<noteq> [] then args @ [current] else args)"

text \<open>A token without a space and without a quote character.\<close>

definition plain :: "string \<Rightarrow> bool" where
  "plain t = (\<forall>c \<in> set t. c \<noteq> space \<and> c \<noteq> dquote \<and> c \<noteq> squote)"

section \<open>The argument vector of runDeployment\<close>

text \<open>
  The first lines of \<open>runDeployment\<close>: the vector starts as
  \<open>['deploy', environment, `--revision=${revision}`]\<close>, the verbosity flag is pushed
  when \<open>verbosity\<close> is truthy (a non-empty string), and the parsed options are pushed
  when \<open>options\<close> is truthy.
\<close>

definition deploy_args :: "string \<Rightarrow> string \<Rightarrow> string \<Rightarrow> string \<Rightarrow> string list" where
  "deploy_args environment revision verbosity options =
     (let args = [''deploy'', environment, ''--revision='' @ revision];
          args = (if verbosity \<noteq> [] then args @ [''-'' @ verbosity] else args);
          args = (if options \<noteq> [] then args @ parseShellArgs options else args)
      in args)"

section \<open>Node's path module (POSIX)\<close>

text \<open>
  \<open>path.resolve\<close> and \<open>path.join\<close> belong to the Node runtime, not to the action.
  They are modelled after Node's documented POSIX behaviour: \<open>normalizeString\<close> drops
  empty and \<open>.\<close> segments and lets a \<open>..\<close> segment remove the segment before it;
  \<open>path.resolve\<close> prepends its arguments from right to left, then the current
  working directory, until the path is absolute; \<open>path.join\<close> normalises the
  arguments joined by slashes.  The working directory \<open>cwd\<close> is a parameter.
\<close>

definition slash :: char where
  "slash = CHR 0x2F"

text \<open>\<open>String.prototype.split\<close> on one separator character: never the empty list.\<close>

fun split_on :: "char \<Rightarrow> string \<Rightarrow> string list" where
  "split_on sep [] = [[]]"
| "split_on sep (c # cs) =
     (if c = sep then [] # split_on sep cs
      else (case split_on sep cs of [] \<Rightarrow> [[c]] | s # ss \<Rightarrow> (c # s) # ss))"

fun join_with :: "char \<Rightarrow> string list \<Rightarrow> string" where
  "join_with sep [] = []"
| "join_with sep [t] = t"
| "join_with sep (t # u # ts) = t @ sep # join_with sep (u # ts)"

fun normalize_segments :: "bool \<Rightarrow> string list \<Rightarrow> string list \<Rightarrow> string list" where
  "normalize_segments allowAboveRoot res [] = res"
| "normalize_segments allowAboveRoot res (s # ss) =
     (if s = [] \<or> s = ''.'' then normalize_segments allowAboveRoot res ss
      else if s = ''..'' then
        (if res \<noteq> [] \<and> last res \<noteq> ''..'' then normalize_segments allowAboveRoot (butlast res) ss
         else if allowAboveRoot then normalize_segments allowAboveRoot (res @ [''..'']) ss
         else normalize_segments allowAboveRoot res ss)
      else normalize_segments allowAboveRoot (res @ [s]) ss)"

definition normalizeString :: "string \<Rightarrow> bool \<Rightarrow> string" where
  "normalizeString path allowAboveRoot =
     join_with slash (normalize_segments allowAboveRoot [] (split_on slash path))"

definition isAbsolute :: "string \<Rightarrow> bool" where
  "isAbsolute path = (case path of [] \<Rightarrow> False | c # _ \<Rightarrow> c = slash)"

text \<open>
  The loop of \<open>path.resolve\<close>: the arguments are visited from the last to the first,
  and then the working directory, until an absolute one has been prepended.
\<close>

fun resolve_loop :: "string list \<Rightarrow> string \<Rightarrow> string" where
  "resolve_loop [] resolvedPath = resolvedPath"
| "resolve_loop (p # ps) resolvedPath =
     (if p = [] then resolve_loop ps resolvedPath
      else if isAbsolute p then p @ slash # resolvedPath
      else resolve_loop ps (p @ slash # resolvedPath))"

definition path_resolve :: "string \<Rightarrow> string list \<Rightarrow> string" where
  "path_resolve cwd paths =
     (let resolvedPath = resolve_loop (rev paths @ [cwd]) [];
          resolvedAbsolute = isAbsolute resolvedPath;
          normalized = normalizeString resolvedPath (\<not> resolvedAbsolute)
      in if resolvedAbsolute then slash # normalized
         else if normalized \<noteq> [] then normalized else ''.'')"

definition path_normalize :: "string \<Rightarrow> string" where
  "path_normalize path =
     (if path = [] then ''.''
      else
        let absolute = isAbsolute path;
            trailingSeparator = (last path = slash);
            normalized = normalizeString path (\<not> absolute)
        in if normalized = [] then
             (if absolute then [slash] else if trailingSeparator then ''./'' else ''.'')
           else
             (if absolute then [slash] else []) @ normalized @
             (if trailingSeparator then [slash] else []))"

definition path_join :: "string \<Rightarrow> string \<Rightarrow> string" where
  "path_join a b =
     (let joined = (if a = [] then b else if b = [] then a else a @ slash # b)
      in path_normalize joined)"

text \<open>\<open>String.prototype.startsWith\<close>.\<close>

definition startsWith :: "string \<Rightarrow> string \<Rightarrow> bool" where
  "startsWith s p = (take (length p) s = p)"

section \<open>Errors\<close>

text \<open>
  Every \<open>throw new Error(...)\<close> of the source is one constructor, named after the
  failure it reports; \<open>message\<close> below gives the text the source builds.  \<open>External\<close>
  is an error raised inside a library call (file system, subprocess launch) with
  the library's message.
\<close>

datatype jsnum = NaN | Num int

datatype error =
    InputRequired string
  | PathEscape string
  | NotFound string
  | PermissionError string string
  | VerificationFailed string int
  | AgentParseError
  | DeploymentFailed int
  | DeploymentTimeout jsnum
  | InvalidTimeout string
  | External string

section \<open>validatePathWithinBase\<close>

definition validatePathWithinBase :: "string \<Rightarrow> string \<Rightarrow> string \<Rightarrow> error + unit" where
  "validatePathWithinBase cwd basePath targetPath =
     (let resolvedBase = path_resolve cwd [basePath];
          resolvedTarget = path_resolve cwd [basePath, targetPath]
      in if \<not> startsWith resolvedTarget resolvedBase then Inl (PathEscape targetPath)
         else Inr ())"

text \<open>
  The containment the specification asks for, stated on resolved paths: the target is
  the base itself or lies below it, the base being a whole path segment.
\<close>

definition within_base :: "string \<Rightarrow> string \<Rightarrow> bool" where
  "within_base resolvedBase resolvedTarget =
     (resolvedTarget = resolvedBase \<or>
      startsWith resolvedTarget
        (if resolvedBase = [slash] then resolvedBase else resolvedBase @ [slash]))"

section \<open>Numbers\<close>

text \<open>
  A JavaScript number that \<open>parseInt\<close> can return is \<open>NaN\<close> or an integer; an optional
  parameter that was not passed (\<open>undefined\<close>) is \<open>None\<close>.  Integers are unbounded here:
  the rounding of \<open>parseInt\<close> beyond \<open>2^53\<close> is not modelled.  \<open>truthy\<close> is the test
  JavaScript applies to a number used as a condition: \<open>undefined\<close>, \<open>NaN\<close> and \<open>0\<close>
  are falsy.
\<close>

fun truthy :: "jsnum option \<Rightarrow> bool" where
  "truthy None = False"
| "truthy (Some NaN) = False"
| "truthy (Some (Num n)) = (n \<noteq> 0)"

fun isNaN :: "jsnum option \<Rightarrow> bool" where
  "isNaN None = True"
| "isNaN (Some NaN) = True"
| "isNaN (Some (Num n)) = False"

text \<open>\<open>x <= 0\<close>: false when \<open>x\<close> is \<open>undefined\<close> or \<open>NaN\<close>.\<close>

fun le_zero :: "jsnum option \<Rightarrow> bool" where
  "le_zero None = False"
| "le_zero (Some NaN) = False"
| "le_zero (Some (Num n)) = (n \<le> 0)"

text \<open>
  White space, as \<open>trim\<close>, \<open>parseInt\<close> and the class \<open>\s\<close> of regular expressions
  understand it, restricted to ASCII: the no-break space and the other Unicode
  white-space characters, which JavaScript also skips, are not modelled.
\<close>

definition is_space :: "char \<Rightarrow> bool" where
  "is_space c = (c \<in> set [CHR 0x20, CHR 0x09, CHR 0x0A, CHR 0x0B, CHR 0x0C, CHR 0x0D])"

definition is_digit :: "char \<Rightarrow> bool" where
  "is_digit c = (c \<in> set ''0123456789'')"

definition digit_value :: "char \<Rightarrow> nat" where
  "digit_value c = of_char c - 48"

fun digits_to_nat :: "nat \<Rightarrow> string \<Rightarrow> nat" where
  "digits_to_nat acc [] = acc"
| "digits_to_nat acc (c # cs) = digits_to_nat (10 * acc + digit_value c) cs"

text \<open>
  \<open>parseInt(s, 10)\<close>: leading white space is skipped, one sign is read, then the longest
  run of decimal digits; with no digit the result is \<open>NaN\<close>.  Whatever follows the
  digits is ignored.  The result is the exact integer: \<open>parseInt\<close> rounds it to a
  double (and gives \<open>Infinity\<close> for very long runs of digits), which is not modelled.
\<close>

definition parseInt10 :: "string \<Rightarrow> jsnum" where
  "parseInt10 s =
     (let t = dropWhile is_space s;
          negative = (t \<noteq> [] \<and> hd t = CHR ''-'');
          u = (if t \<noteq> [] \<and> (hd t = CHR ''-'' \<or> hd t = CHR ''+'') then tl t else t);
          ds = takeWhile is_digit u
      in if ds = [] then NaN
         else Num ((if negative then - 1 else 1) * int (digits_to_nat 0 ds)))"

text \<open>Numbers in template literals: decimal digits, \<open>NaN\<close> for \<open>NaN\<close>.\<close>

fun show_nat :: "nat \<Rightarrow> string" where
  "show_nat n =
     (if n < 10 then [''0123456789'' ! n]
      else show_nat (n div 10) @ [''0123456789'' ! (n mod 10)])"

declare show_nat.simps [simp del]

definition show_int :: "int \<Rightarrow> string" where
  "show_int i = (if i < 0 then CHR ''-'' # show_nat (nat (- i)) else show_nat (nat i))"

fun show_num :: "jsnum \<Rightarrow> string" where
  "show_num NaN = ''NaN''"
| "show_num (Num i) = show_int i"

fun message :: "error \<Rightarrow> string" where
  "message (InputRequired name) = ''Input required and not supplied: '' @ name"
| "message (PathEscape targetPath) =
     ''Path '' @ [squote] @ targetPath @ [squote] @ '' is outside the working directory''"
| "message (NotFound binaryPath) =
     ''Deployer binary not found at '' @ [squote] @ binaryPath @ [squote] @ ''. '' @
     ''Make sure Deployer is installed via Composer or provide the correct path.''"
| "message (PermissionError binaryPath chmodError) =
     ''Failed to make '' @ binaryPath @ '' executable: '' @ chmodError"
| "message (VerificationFailed binaryPath exitCode) =
     ''Failed to verify Deployer binary at '' @ [squote] @ binaryPath @ [squote] @ ''. '' @
     ''The binary exists but could not be executed. Exit code: '' @ show_int exitCode"
| "message AgentParseError =
     ''Failed to parse ssh-agent output. Could not extract SSH_AUTH_SOCK or SSH_AGENT_PID.''"
| "message (DeploymentFailed exitCode) =
     ''Deployer command failed with exit code '' @ show_int exitCode"
| "message (DeploymentTimeout timeoutMs) =
     ''Deployment timed out after '' @ show_num timeoutMs @ ''ms''"
| "message (InvalidTimeout timeout) =
     ''Invalid timeout value: '' @ timeout @ ''. Must be a positive number in milliseconds.''"
| "message (External m) = m"

section \<open>The timeout input\<close>

text \<open>
  The two statements of \<open>run\<close> under \<open>// Parse timeout value\<close>: \<open>timeoutMs\<close> is
  \<open>parseInt(inputs.timeout, 10)\<close> when the input is a non-empty string and
  \<open>undefined\<close> otherwise; the error is thrown when
  \<open>timeoutMs && (isNaN(timeoutMs) || timeoutMs <= 0)\<close>.
\<close>

definition parse_timeout :: "string \<Rightarrow> error + jsnum option" where
  "parse_timeout timeout =
     (let timeoutMs = (if timeout \<noteq> [] then Some (parseInt10 timeout) else None)
      in if truthy timeoutMs \<and> (isNaN timeoutMs \<or> le_zero timeoutMs)
         then Inl (InvalidTimeout timeout)
         else Inr timeoutMs)"

section \<open>The state the action acts on\<close>

text \<open>
  What the action reads and changes outside its own variables: the regular files
  (an association list from absolute paths to contents and permission bits), the
  process environment, the outputs and the failure message recorded through
  \<open>@actions/core\<close>, and the sequence of calls that reach beyond the process
  (\<open>trace\<close>), in the order in which they are made.  Console logging (\<open>log.*\<close>,
  \<open>core.debug\<close>) and the copies of the deployment output written to
  \<open>process.stdout\<close> and \<open>process.stderr\<close> change none of this and are left out.
\<close>

record regular_file =
  content :: string
  mode :: nat

datatype event =
    StartGroup string
  | EndGroup
  | ExportVariable string string
  | SetOutput string string
  | SetFailed string
  | Exec string "string list"
  | SetTimeout jsnum
  | ClearTimeout

record world =
  files :: "(string \<times> regular_file) list"
  env :: "string \<rightharpoonup> string"
  outputs :: "string \<rightharpoonup> string"
  failure :: "string option"
  trace :: "event list"

text \<open>
  What the surroundings answer.  A subprocess started with \<open>exec\<close> either settles,
  after some milliseconds, by resolving with an exit code or by rejecting with a
  message, or never settles; \<open>chunks\<close> are the pieces of output handed to the stdout
  and stderr listeners, in arrival order.  The helper processes (\<open>ssh-agent\<close>,
  \<open>ssh-add\<close>, the version probe) are taken to settle.  \<open>io_error p\<close> is the message of
  the error with which every file-system call on the path \<open>p\<close> fails, if it does.
\<close>

datatype stream = Stdout | Stderr

datatype settle = Resolves int | Rejects string

record process =
  chunks :: "(stream \<times> string) list"
  settles :: "(nat \<times> settle) option"

record platform =
  action_input :: "string \<Rightarrow> string"
  homedir :: string
  tmpdir :: string
  cwd :: string
  now :: nat
  io_error :: "string \<Rightarrow> string option"
  agent_start :: "string + string"
  ssh_add :: "string option"
  version_probe :: "string + string \<times> int"
  deploy :: process
  timer_wins_tie :: bool

subsection \<open>@actions/core\<close>

definition emit :: "event \<Rightarrow> world \<Rightarrow> world" where
  "emit e w = w\<lparr>trace := trace w @ [e]\<rparr>"

definition exportVariable :: "string \<Rightarrow> string \<Rightarrow> world \<Rightarrow> world" where
  "exportVariable name val w = emit (ExportVariable name val) (w\<lparr>env := (env w)(name \<mapsto> val)\<rparr>)"

definition setOutput :: "string \<Rightarrow> string \<Rightarrow> world \<Rightarrow> world" where
  "setOutput name val w = emit (SetOutput name val) (w\<lparr>outputs := (outputs w)(name \<mapsto> val)\<rparr>)"

definition setFailed :: "string \<Rightarrow> world \<Rightarrow> world" where
  "setFailed msg w = emit (SetFailed msg) (w\<lparr>failure := Some msg\<rparr>)"

definition js_trim :: "string \<Rightarrow> string" where
  "js_trim s = rev (dropWhile is_space (rev (dropWhile is_space s)))"

text \<open>
  \<open>core.getInput\<close>: a required input that is empty raises; otherwise the value is
  trimmed.
\<close>

definition getInput :: "platform \<Rightarrow> string \<Rightarrow> bool \<Rightarrow> error + string" where
  "getInput pf name required =
     (let val = action_input pf name
      in if required \<and> val = [] then Inl (InputRequired name) else Inr (js_trim val))"

subsection \<open>File system\<close>

text \<open>
  Paths are resolved against the working directory of the process.  \<open>writeFile\<close>
  replaces the content and applies its mode only to a file it creates; \<open>unlink\<close> and
  \<open>access\<close> fail on a path that has no file.  A call that fails leaves the files as
  they were.
\<close>

definition abs_path :: "platform \<Rightarrow> string \<Rightarrow> string" where
  "abs_path pf p = path_resolve (cwd pf) [p]"

definition remove_entry :: "string \<Rightarrow> (string \<times> regular_file) list \<Rightarrow> (string \<times> regular_file) list" where
  "remove_entry p fs = filter (\<lambda>e. fst e \<noteq> p) fs"

definition fs_writeFile :: "platform \<Rightarrow> string \<Rightarrow> string \<Rightarrow> nat \<Rightarrow> world \<Rightarrow> error + world" where
  "fs_writeFile pf p data m w =
     (let a = abs_path pf p
      in case io_error pf a of
           Some msg \<Rightarrow> Inl (External msg)
         | None \<Rightarrow>
             let m' = (case map_of (files w) a of Some f \<Rightarrow> mode f | None \<Rightarrow> m)
             in Inr (w\<lparr>files := (a, \<lparr>content = data, mode = m'\<rparr>) # remove_entry a (files w)\<rparr>))"

definition fs_unlink :: "platform \<Rightarrow> string \<Rightarrow> world \<Rightarrow> error + world" where
  "fs_unlink pf p w =
     (let a = abs_path pf p
      in case io_error pf a of
           Some msg \<Rightarrow> Inl (External msg)
         | None \<Rightarrow>
             (case map_of (files w) a of
                None \<Rightarrow> Inl (External (''ENOENT: no such file or directory, unlink '' @ [squote] @ p @ [squote]))
              | Some f \<Rightarrow> Inr (w\<lparr>files := remove_entry a (files w)\<rparr>)))"

definition fs_chmod :: "platform \<Rightarrow> string \<Rightarrow> nat \<Rightarrow> world \<Rightarrow> error + world" where
  "fs_chmod pf p m w =
     (let a = abs_path pf p
      in case io_error pf a of
           Some msg \<Rightarrow> Inl (External msg)
         | None \<Rightarrow>
             (case map_of (files w) a of
                None \<Rightarrow> Inl (External (''ENOENT: no such file or directory, chmod '' @ [squote] @ p @ [squote]))
              | Some f \<Rightarrow> Inr (w\<lparr>files := (a, f\<lparr>mode := m\<rparr>) # remove_entry a (files w)\<rparr>)))"

text \<open>\<open>fs.access\<close> with \<open>F_OK\<close> and with \<open>X_OK\<close> (the owner's execute bit).\<close>

definition fs_exists :: "platform \<Rightarrow> string \<Rightarrow> world \<Rightarrow> bool" where
  "fs_exists pf p w =
     (let a = abs_path pf p in io_error pf a = None \<and> map_of (files w) a \<noteq> None)"

definition fs_executable :: "platform \<Rightarrow> string \<Rightarrow> world \<Rightarrow> bool" where
  "fs_executable pf p w =
     (let a = abs_path pf p
      in io_error pf a = None \<and>
         (case map_of (files w) a of None \<Rightarrow> False | Some f \<Rightarrow> odd (mode f div 64)))"

text \<open>The name of a file directly inside \<open>dir\<close>, from its absolute path.\<close>

definition entry_in :: "string \<Rightarrow> string \<Rightarrow> string option" where
  "entry_in dir p =
     (let pre = (if dir = [slash] then dir else dir @ [slash]);
          name = drop (length pre) p
      in if startsWith p pre \<and> name \<noteq> [] \<and> slash \<notin> set name then Some name else None)"

definition fs_readdir :: "platform \<Rightarrow> string \<Rightarrow> world \<Rightarrow> error + string list" where
  "fs_readdir pf d w =
     (let a = abs_path pf d
      in case io_error pf a of
           Some msg \<Rightarrow> Inl (External msg)
         | None \<Rightarrow> Inr (List.map_filter (entry_in a) (map fst (files w))))"

definition fs_mkdirP :: "platform \<Rightarrow> string \<Rightarrow> world \<Rightarrow> error + world" where
  "fs_mkdirP pf d w =
     (case io_error pf (abs_path pf d) of Some msg \<Rightarrow> Inl (External msg) | None \<Rightarrow> Inr w)"

text \<open>\<open>fs.chmod\<close> on a directory: directories carry no state here, the call can only fail.\<close>

definition fs_chmod_dir :: "platform \<Rightarrow> string \<Rightarrow> nat \<Rightarrow> world \<Rightarrow> error + world" where
  "fs_chmod_dir pf d m w =
     (case io_error pf (abs_path pf d) of Some msg \<Rightarrow> Inl (External msg) | None \<Rightarrow> Inr w)"

subsection \<open>Sequencing\<close>

text \<open>
  An awaited call that rejects ends the enclosing function with the same error, in
  the state reached so far (\<open>attempt\<close>); inside \<open>try { ... } catch { }\<close> the error is
  dropped and the function goes on (\<open>ignore_failure\<close>).
\<close>

definition attempt ::
  "(world \<Rightarrow> error + world) \<Rightarrow> world \<Rightarrow> (world \<Rightarrow> (error + 'a) \<times> world) \<Rightarrow> (error + 'a) \<times> world" where
  "attempt call w continue = (case call w of Inl e \<Rightarrow> (Inl e, w) | Inr w' \<Rightarrow> continue w')"

definition ignore_failure :: "(world \<Rightarrow> error + world) \<Rightarrow> world \<Rightarrow> world" where
  "ignore_failure call w = (case call w of Inl e \<Rightarrow> w | Inr w' \<Rightarrow> w')"

section \<open>setupSSH\<close>

definition newline :: char where
  "newline = CHR 0x0A"

definition sshConfig :: "string \<Rightarrow> string \<Rightarrow> string \<Rightarrow> string \<Rightarrow> string \<Rightarrow> string" where
  "sshConfig knownHosts knownHostsPath privateKeyPath port controlPath =
     concat (map (\<lambda>line. line @ [newline])
       [''Host *'',
        ''  StrictHostKeyChecking '' @ (if knownHosts \<noteq> [] then ''yes'' else ''no''),
        ''  UserKnownHostsFile '' @ (if knownHosts \<noteq> [] then knownHostsPath else ''/dev/null''),
        ''  IdentityFile '' @ privateKeyPath,
        ''  Port '' @ port,
        ''  ControlMaster auto'',
        ''  ControlPath '' @ controlPath,
        ''  ControlPersist 600'',
        ''  ServerAliveInterval 60'',
        ''  ServerAliveCountMax 3''])"

text \<open>
  The first match of the regular expression \<open>/NAME=([^;\s]+)/\<close> in a text: its group,
  the longest run of characters other than \<open>;\<close> and white space after \<open>NAME=\<close>.
\<close>

definition value_char :: "char \<Rightarrow> bool" where
  "value_char c = (c \<noteq> CHR '';'' \<and> \<not> is_space c)"

fun match_assignment :: "string \<Rightarrow> string \<Rightarrow> string option" where
  "match_assignment name [] = None"
| "match_assignment name (c # cs) =
     (let v = takeWhile value_char (drop (length name) (c # cs))
      in if startsWith (c # cs) name \<and> v \<noteq> [] then Some v
         else match_assignment name cs)"

definition setupSSH ::
  "platform \<Rightarrow> string \<Rightarrow> string \<Rightarrow> string \<Rightarrow> world \<Rightarrow> (error + string) \<times> world" where
  "setupSSH pf privateKey knownHosts port w0 =
     (let w = emit (StartGroup ''Setting up SSH'') w0;
          sshDir = path_join (homedir pf) ''.ssh'';
          tmpDir = tmpdir pf;
          privateKeyPath = path_join sshDir ''deployer_action_key'';
          knownHostsPath = path_join sshDir ''deployer_action_known_hosts'';
          configPath = path_join tmpDir (''ssh_config_deployer_'' @ show_nat (now pf));
          controlPath = path_join tmpDir ''ssh_mux_%h_%p_%r''
      in
      attempt (fs_mkdirP pf sshDir) w (\<lambda>w.
      attempt (fs_chmod_dir pf sshDir 448) w (\<lambda>w.
      attempt (fs_writeFile pf privateKeyPath (privateKey @ [newline]) 384) w (\<lambda>w.
      attempt (if knownHosts \<noteq> [] then fs_writeFile pf knownHostsPath (knownHosts @ [newline]) 420
               else Inr) w (\<lambda>w.
      attempt (fs_writeFile pf configPath
                 (sshConfig knownHosts knownHostsPath privateKeyPath port controlPath) 384) w (\<lambda>w.
        let w = exportVariable ''GIT_SSH_COMMAND'' (''ssh -F '' @ configPath) w;
            w = emit (Exec ''ssh-agent'' [''-s'']) w
        in case agent_start pf of
             Inl msg \<Rightarrow> (Inl (External msg), w)
           | Inr stdout \<Rightarrow>
               (case (match_assignment ''SSH_AUTH_SOCK='' stdout,
                      match_assignment ''SSH_AGENT_PID='' stdout) of
                  (Some authSock, Some agentPid) \<Rightarrow>
                    let w = exportVariable ''SSH_AUTH_SOCK'' authSock w;
                        w = exportVariable ''SSH_AGENT_PID'' agentPid w;
                        w = emit (Exec ''ssh-add'' [privateKeyPath]) w
                    in (case ssh_add pf of
                          Some msg \<Rightarrow> (Inl (External msg), w)
                        | None \<Rightarrow> (Inr configPath, emit EndGroup w))
                | _ \<Rightarrow> (Inl AgentParseError, w))))))))"

section \<open>verifyDeployerBinary\<close>

definition verifyDeployerBinary ::
  "platform \<Rightarrow> string \<Rightarrow> string \<Rightarrow> world \<Rightarrow> (error + unit) \<times> world" where
  "verifyDeployerBinary pf binaryPath workingDir w0 =
     (let w = emit (StartGroup ''Verifying Deployer'') w0
      in case validatePathWithinBase (cwd pf) workingDir binaryPath of
           Inl e \<Rightarrow> (Inl e, w)
         | Inr _ \<Rightarrow>
             let fullPath = path_join workingDir binaryPath
             in if \<not> fs_exists pf fullPath w then (Inl (NotFound binaryPath), w)
                else
                  (case (if fs_executable pf fullPath w then Inr w
                         else fs_chmod pf fullPath 493 w) of
                     Inl chmodError \<Rightarrow>
                       (Inl (PermissionError binaryPath (''Error: '' @ message chmodError)), w)
                   | Inr w \<Rightarrow>
                       let w = emit (Exec binaryPath [''--version'']) w
                       in (case version_probe pf of
                             Inl msg \<Rightarrow> (Inl (External msg), w)
                           | Inr (stdout, exitCode) \<Rightarrow>
                               if exitCode \<noteq> 0 \<or> stdout = []
                               then (Inl (VerificationFailed binaryPath exitCode), w)
                               else (Inr (), emit EndGroup w))))"

section \<open>runDeployment\<close>

text \<open>
  Time is counted in milliseconds from the moment the timer is set and the
  subprocess is launched.  \<open>setTimeout\<close> fires after its delay, which Node replaces
  by 1 when it is below 1, above \<open>2^31 - 1\<close> or \<open>NaN\<close>.  \<open>Promise.race\<close> settles with
  whichever of the two promises settles first; when both are due in the same
  millisecond the platform decides (\<open>timer_wins_tie\<close>).  With no timer the function
  awaits the subprocess alone, for ever if it never settles (\<open>Pending\<close>).
\<close>

definition timer_delay :: "jsnum \<Rightarrow> nat" where
  "timer_delay t =
     (case t of NaN \<Rightarrow> 1 | Num n \<Rightarrow> if n < 1 \<or> 2147483647 < n then 1 else nat n)"

datatype awaited = Pending | Settled settle | TimerFired jsnum

definition race :: "platform \<Rightarrow> jsnum option \<Rightarrow> (nat \<times> settle) option \<Rightarrow> awaited" where
  "race pf timer execPromise =
     (case timer of
        None \<Rightarrow> (case execPromise of None \<Rightarrow> Pending | Some (at, s) \<Rightarrow> Settled s)
      | Some t \<Rightarrow>
          (case execPromise of
             None \<Rightarrow> TimerFired t
           | Some (at, s) \<Rightarrow>
               if timer_delay t < at \<or> (timer_delay t = at \<and> timer_wins_tie pf)
               then TimerFired t else Settled s))"

definition runDeployment ::
  "platform \<Rightarrow> string \<Rightarrow> string \<Rightarrow> string \<Rightarrow> string \<Rightarrow> string \<Rightarrow> string \<Rightarrow> jsnum option \<Rightarrow>
     world \<Rightarrow> ((error + string) \<times> world) option" where
  "runDeployment pf deployerBinary environment revision workingDir verbosity options timeoutMs w0 =
     (let w = emit (StartGroup (''Deploying to '' @ environment)) w0;
          args = deploy_args environment revision verbosity options;
          timeoutHandle = (if truthy timeoutMs then timeoutMs else None);
          w = (case timeoutHandle of Some t \<Rightarrow> emit (SetTimeout t) w | None \<Rightarrow> w);
          w = emit (Exec deployerBinary args) w;
          deployerOutput = concat (map snd (chunks (deploy pf)));
          finally = (\<lambda>w. case timeoutHandle of Some t \<Rightarrow> emit ClearTimeout w | None \<Rightarrow> w)
      in case race pf timeoutHandle (settles (deploy pf)) of
           Pending \<Rightarrow> None
         | TimerFired t \<Rightarrow> Some (Inl (DeploymentTimeout t), finally w)
         | Settled (Rejects msg) \<Rightarrow> Some (Inl (External msg), finally w)
         | Settled (Resolves exitCode) \<Rightarrow>
             if exitCode \<noteq> 0
             then Some (Inl (DeploymentFailed exitCode), emit EndGroup (finally w))
             else Some (Inr deployerOutput, emit EndGroup (finally w)))"

section \<open>cleanupSSH\<close>

text \<open>The loop over the control sockets; each \<open>unlink\<close> has its own \<open>.catch(() => {})\<close>.\<close>

primrec remove_sockets :: "platform \<Rightarrow> string \<Rightarrow> string list \<Rightarrow> world \<Rightarrow> world" where
  "remove_sockets pf tmpDir [] w = w"
| "remove_sockets pf tmpDir (socket # rest) w =
     remove_sockets pf tmpDir rest (ignore_failure (fs_unlink pf (path_join tmpDir socket)) w)"

definition cleanupSSH :: "platform \<Rightarrow> string option \<Rightarrow> world \<Rightarrow> world" where
  "cleanupSSH pf configPath w0 =
     (let w = emit (StartGroup ''Cleaning up SSH'') w0;
          sshDir = path_join (homedir pf) ''.ssh'';
          tmpDir = tmpdir pf;
          privateKeyPath = path_join sshDir ''deployer_action_key'';
          knownHostsPath = path_join sshDir ''deployer_action_known_hosts'';
          w = ignore_failure (fs_unlink pf privateKeyPath) w;
          w = ignore_failure (fs_unlink pf knownHostsPath) w;
          w = (case configPath of
                 None \<Rightarrow> w
               | Some p \<Rightarrow> if p \<noteq> [] then ignore_failure (fs_unlink pf p) w else w);
          w = (case fs_readdir pf tmpDir w of
                 Inl e \<Rightarrow> w
               | Inr tmpFiles \<Rightarrow>
                   remove_sockets pf tmpDir (filter (\<lambda>f. startsWith f ''ssh_mux_'') tmpFiles) w);
          w = (case env w ''SSH_AGENT_PID'' of
                 None \<Rightarrow> w
               | Some agentPid \<Rightarrow>
                   if agentPid \<noteq> [] then emit (Exec ''ssh-agent'' [''-k'']) w else w)
      in emit EndGroup w)"

section \<open>run\<close>

record ActionInputs =
  sshPrivateKey :: string
  environment :: string
  revision :: string
  deployerBinary :: string
  sshKnownHosts :: string
  sshPort :: string
  workingDirectory :: string
  verbosity :: string
  options :: string
  timeout :: string

text \<open>
  \<open>getInputs\<close> reads the ten inputs in the order of the object literal; only the
  first three are required, so only they can raise.
\<close>

definition optionalInput :: "platform \<Rightarrow> string \<Rightarrow> string" where
  "optionalInput pf name = (case getInput pf name False of Inl e \<Rightarrow> [] | Inr val \<Rightarrow> val)"

definition getInputs :: "platform \<Rightarrow> error + ActionInputs" where
  "getInputs pf =
     (case getInput pf ''ssh-private-key'' True of
        Inl e \<Rightarrow> Inl e
      | Inr key \<Rightarrow>
     (case getInput pf ''environment'' True of
        Inl e \<Rightarrow> Inl e
      | Inr en \<Rightarrow>
     (case getInput pf ''revision'' True of
        Inl e \<Rightarrow> Inl e
      | Inr rv \<Rightarrow>
          Inr \<lparr>sshPrivateKey = key, environment = en, revision = rv,
               deployerBinary = optionalInput pf ''deployer-binary'',
               sshKnownHosts = optionalInput pf ''ssh-known-hosts'',
               sshPort = optionalInput pf ''ssh-port'',
               workingDirectory = optionalInput pf ''working-directory'',
               verbosity = optionalInput pf ''verbosity'',
               options = optionalInput pf ''options'',
               timeout = optionalInput pf ''timeout''\<rparr>)))"

text \<open>
  The \<open>catch\<close> block of \<open>run\<close>, entered with the error and with \<open>sshConfigPath\<close> as it
  is at that moment: the failure and the status are recorded, then \<open>cleanupSSH\<close> runs.
\<close>

definition catch_block :: "platform \<Rightarrow> string option \<Rightarrow> error \<Rightarrow> world \<Rightarrow> world" where
  "catch_block pf sshConfigPath err w =
     (let errorMessage = message err;
          w = setFailed (''Action failed: '' @ errorMessage) w;
          w = setOutput ''deployment-status'' ''failed'' w
      in cleanupSSH pf sshConfigPath w)"

text \<open>
  \<open>run\<close>, from a starting state to the state in which it ends; \<open>None\<close> when it awaits
  a deployment that never settles.  A run that hangs in one of the helper processes,
  which the source also awaits without a timer, is outside the model.  \<open>sshConfigPath\<close> is assigned only when \<open>setupSSH\<close>
  returns, so the \<open>catch\<close> block sees \<open>undefined\<close> for every error raised up to then.
\<close>

definition run :: "platform \<Rightarrow> world \<Rightarrow> world option" where
  "run pf w =
     (case getInputs pf of
        Inl e \<Rightarrow> Some (catch_block pf None e w)
      | Inr inputs \<Rightarrow>
     (case setupSSH pf (sshPrivateKey inputs) (sshKnownHosts inputs) (sshPort inputs) w of
        (Inl e, w) \<Rightarrow> Some (catch_block pf None e w)
      | (Inr sshConfigPath, w) \<Rightarrow>
     (case verifyDeployerBinary pf (deployerBinary inputs) (workingDirectory inputs) w of
        (Inl e, w) \<Rightarrow> Some (catch_block pf (Some sshConfigPath) e w)
      | (Inr _, w) \<Rightarrow>
     (case parse_timeout (timeout inputs) of
        Inl e \<Rightarrow> Some (catch_block pf (Some sshConfigPath) e w)
      | Inr timeoutMs \<Rightarrow>
     (case runDeployment pf (deployerBinary inputs) (environment inputs) (revision inputs)
             (workingDirectory inputs) (verbosity inputs) (options inputs) timeoutMs w of
        None \<Rightarrow> None
      | Some (Inl e, w) \<Rightarrow> Some (catch_block pf (Some sshConfigPath) e w)
      | Some (Inr output, w) \<Rightarrow>
          let w = setOutput ''deployment-status'' ''success'' w;
              w = setOutput ''deployer-output'' output w
          in Some (cleanupSSH pf (Some sshConfigPath) w))))))"

section \<open>Notions used in the properties\<close>

text \<open>
  Two states that differ in their files at most: every file-system call of the
  action relates the state before it to the state after it in this way.
\<close>

definition same_but_files :: "world \<Rightarrow> world \<Rightarrow> bool" where
  "same_but_files w w' =
     (env w' = env w \<and> outputs w' = outputs w \<and> failure w' = failure w \<and> trace w' = trace w)"

text \<open>
  The events by which \<open>run\<close> reports its outcome are the \<open>deployment-status\<close> output
  and the failure message; cleanup begins with the opening of its log group.  An
  event is \<open>silent\<close> when it sets no output, records no failure and does not begin
  cleanup.
\<close>

fun reports_outcome :: "event \<Rightarrow> bool" where
  "reports_outcome (SetOutput name val) = (name = ''deployment-status'')"
| "reports_outcome (SetFailed msg) = True"
| "reports_outcome _ = False"

definition starts_cleanup :: "event \<Rightarrow> bool" where
  "starts_cleanup e = (e = StartGroup ''Cleaning up SSH'')"

fun silent :: "event \<Rightarrow> bool" where
  "silent (SetOutput name val) = False"
| "silent (SetFailed msg) = False"
| "silent (StartGroup name) = (name \<noteq> ''Cleaning up SSH'')"
| "silent _ = True"

text \<open>
  \<open>cleanup_precedes_report seen es\<close>: in the events \<open>es\<close>, every event that reports the
  outcome comes after an event that starts cleanup (\<open>seen\<close> says whether cleanup has
  started before \<open>es\<close>).
\<close>

fun cleanup_precedes_report :: "bool \<Rightarrow> event list \<Rightarrow> bool" where
  "cleanup_precedes_report seen [] = True"
| "cleanup_precedes_report seen (e # es) =
     (if reports_outcome e then seen \<and> cleanup_precedes_report seen es
      else cleanup_precedes_report (seen \<or> starts_cleanup e) es)"

text \<open>The events of a call to \<open>cleanupSSH\<close> made when the agent's process id is \<open>agentPid\<close>.\<close>

definition cleanup_events :: "string option \<Rightarrow> event list" where
  "cleanup_events agentPid =
     StartGroup ''Cleaning up SSH'' #
     (case agentPid of
        None \<Rightarrow> []
      | Some pid \<Rightarrow> if pid \<noteq> [] then [Exec ''ssh-agent'' [''-k'']] else []) @
     [EndGroup]"

text \<open>
  \<open>advances w w'\<close>: from \<open>w\<close> to \<open>w'\<close> only silent events were added to the trace, and
  the outputs and the failure message are the same.
\<close>

definition advances :: "world \<Rightarrow> world \<Rightarrow> bool" where
  "advances w w' =
     (outputs w' = outputs w \<and> failure w' = failure w \<and>
      (\<exists>es. trace w' = trace w @ es \<and> list_all silent es))"

text \<open>
  The two ways in which \<open>run\<close> ends, from the state \<open>w\<close> in which it starts to the
  state \<open>w'\<close> in which it ends: silent events, then the report of the outcome, then
  the events of cleanup.
\<close>

definition failed_run :: "world \<Rightarrow> world \<Rightarrow> bool" where
  "failed_run w w' =
     (\<exists>pre msg pid. list_all silent pre \<and>
        trace w' = trace w @ pre @ [SetFailed msg, SetOutput ''deployment-status'' ''failed''] @ cleanup_events pid \<and>
        outputs w' = (outputs w)(''deployment-status'' \<mapsto> ''failed'') \<and>
        failure w' = Some msg)"

definition successful_run :: "platform \<Rightarrow> world \<Rightarrow> world \<Rightarrow> bool" where
  "successful_run pf w w' =
     (\<exists>pre pid. list_all silent pre \<and>
        trace w' = trace w @ pre @
          [SetOutput ''deployment-status'' ''success'',
           SetOutput ''deployer-output'' (concat (map snd (chunks (deploy pf))))] @ cleanup_events pid \<and>
        outputs w' = (outputs w)(''deployment-status'' \<mapsto> ''success'',
          ''deployer-output'' \<mapsto> concat (map snd (chunks (deploy pf)))) \<and>
        failure w' = failure w)"

section \<open>A runner\<close>

text \<open>
  A concrete platform and starting state for the examples: a GitHub runner with the
  repository checked out in \<open>/work\<close>, the default inputs, no known hosts and no
  timeout.  The announcement of \<open>ssh-agent\<close> and the behaviour of the deployment are
  parameters.  \<open>configured\<close>, \<open>agent_added\<close> and \<open>deployed\<close> are the states the run
  goes through.
\<close>

definition runner_inputs :: "string \<Rightarrow> string" where
  "runner_inputs name =
     (if name = ''ssh-private-key'' then ''KEY''
      else if name = ''environment'' then ''production''
      else if name = ''revision'' then ''abc123''
      else if name = ''deployer-binary'' then ''vendor/bin/dep''
      else if name = ''ssh-port'' then ''22''
      else if name = ''working-directory'' then ''.''
      else [])"

definition runner :: "string \<Rightarrow> process \<Rightarrow> platform" where
  "runner agentOutput deployment =
     \<lparr>action_input = runner_inputs, homedir = ''/home/runner'', tmpdir = ''/tmp'', cwd = ''/work'',
      now = 1700000000000, io_error = (\<lambda>p. None),
      agent_start = Inr agentOutput,
      ssh_add = None, version_probe = Inr (''Deployer 7.3.0'', 0),
      deploy = deployment, timer_wins_tie = False\<rparr>"

definition agent_ok :: string where
  "agent_ok = ''SSH_AUTH_SOCK=/tmp/agent.1; export SSH_AUTH_SOCK; SSH_AGENT_PID=42; export SSH_AGENT_PID;''"

definition checkout :: world where
  "checkout =
     \<lparr>files = [(''/work/vendor/bin/dep'', \<lparr>content = ''#!php'', mode = 493\<rparr>)],
      env = Map.empty, outputs = Map.empty, failure = None, trace = []\<rparr>"

definition configured :: world where
  "configured =
     \<lparr>files =
        [(''/tmp/ssh_config_deployer_1700000000000'',
          \<lparr>content = sshConfig [] ''/home/runner/.ssh/deployer_action_known_hosts''
               ''/home/runner/.ssh/deployer_action_key'' ''22'' ''/tmp/ssh_mux_%h_%p_%r'',
           mode = 384\<rparr>),
         (''/home/runner/.ssh/deployer_action_key'', \<lparr>content = ''KEY'' @ [newline], mode = 384\<rparr>),
         (''/work/vendor/bin/dep'', \<lparr>content = ''#!php'', mode = 493\<rparr>)],
      env = [''GIT_SSH_COMMAND'' \<mapsto> ''ssh -F /tmp/ssh_config_deployer_1700000000000''],
      outputs = Map.empty, failure = None,
      trace =
        [StartGroup ''Setting up SSH'',
         ExportVariable ''GIT_SSH_COMMAND'' ''ssh -F /tmp/ssh_config_deployer_1700000000000'',
         Exec ''ssh-agent'' [''-s'']]\<rparr>"

definition agent_added :: world where
  "agent_added =
     configured
       \<lparr>env := (env configured)(''SSH_AUTH_SOCK'' \<mapsto> ''/tmp/agent.1'', ''SSH_AGENT_PID'' \<mapsto> ''42''),
        trace := trace configured @
          [ExportVariable ''SSH_AUTH_SOCK'' ''/tmp/agent.1'',
           ExportVariable ''SSH_AGENT_PID'' ''42'',
           Exec ''ssh-add'' [''/home/runner/.ssh/deployer_action_key''],
           EndGroup]\<rparr>"

definition passing_deploy :: process where
  "passing_deploy = \<lparr>chunks = [(Stdout, ''OK'')], settles = Some (1500, Resolves 0)\<rparr>"

definition failing_deploy :: process where
  "failing_deploy =
     \<lparr>chunks = [(Stdout, ''Deploying''), (Stderr, ''boom'')], settles = Some (1500, Resolves 1)\<rparr>"

definition deployed :: world where
  "deployed =
     agent_added\<lparr>trace := trace agent_added @
       [StartGroup ''Verifying Deployer'', Exec ''vendor/bin/dep'' [''--version''], EndGroup,
        StartGroup ''Deploying to production'',
        Exec ''vendor/bin/dep'' [''deploy'', ''production'', ''--revision=abc123''],
        EndGroup]\<rparr>"

section \<open>Properties of parseShellArgs and of the argument vector\<close>

lemma parseShellArgs_finish: "parseShellArgs input = finish (parse_loop [] [] False [] input)"
  by (simp add: parseShellArgs_def finish_def)

lemma parseShellArgs_empty: "parseShellArgs [] = []"
  by (simp add: parseShellArgs_def)

lemma parse_loop_plain:
  "plain t \<Longrightarrow>
   parse_loop args current False [] (t @ rest) = parse_loop args (current @ t) False [] rest"
  by (induction t arbitrary: current) (simp_all add: plain_def)

lemma parse_loop_join:
  "\<forall>t \<in> set ts. t \<noteq> [] \<and> plain t \<Longrightarrow>
   finish (parse_loop args [] False [] (join_space ts)) = args @ ts"
proof (induction ts arbitrary: args rule: join_space.induct)
  case 1
  show ?case by (simp add: finish_def)
next
  case (2 t)
  then have "plain t" and "t \<noteq> []" by simp_all
  then show ?case
    using parse_loop_plain [of t args "[]" "[]"] by (simp add: finish_def)
next
  case (3 t u ts)
  then have t: "plain t" "t \<noteq> []" by simp_all
  have "parse_loop args [] False [] (join_space (t # u # ts)) =
        parse_loop args t False [] (space # join_space (u # ts))"
    using parse_loop_plain [OF t(1), of args "[]"] by simp
  also have "\<dots> = parse_loop (args @ [t]) [] False [] (join_space (u # ts))"
    using t(2) by (simp add: dquote_def squote_def space_def)
  finally show ?case using 3 by simp
qed

lemma parse_loop_nonempty:
  "\<forall>t \<in> set args. t \<noteq> [] \<Longrightarrow>
   \<forall>t \<in> set (fst (parse_loop args current inQuote quoteChar input)). t \<noteq> []"
proof (induction input arbitrary: args current inQuote quoteChar)
  case Nil
  then show ?case by simp
next
  case (Cons c rest)
  have keep: "\<forall>t \<in> set (fst (parse_loop args cur q qc rest)). t \<noteq> []" for cur q qc
    using Cons.IH [OF Cons.prems] .
  have push: "\<forall>t \<in> set (fst (parse_loop (args @ [current]) cur q qc rest)). t \<noteq> []"
    if "current \<noteq> []" for cur q qc
  proof (rule Cons.IH)
    show "\<forall>t \<in> set (args @ [current]). t \<noteq> []" using Cons.prems that by simp
  qed
  show ?case
    unfolding parse_loop.simps using keep push by (simp only: split: if_split) blast
qed

lemma parseShellArgs_nonempty: "t \<in> set (parseShellArgs input) \<Longrightarrow> t \<noteq> []"
proof -
  assume t: "t \<in> set (parseShellArgs input)"
  obtain args current where r: "parse_loop [] [] False [] input = (args, current)"
    by (cases "parse_loop [] [] False [] input")
  have "\<forall>t \<in> set args. t \<noteq> []"
    using parse_loop_nonempty [of "[]" "[]" False "[]" input] r by simp
  with t r show ?thesis
    by (auto simp: parseShellArgs_def split: if_splits)
qed

lemma parseShellArgs_join:
  "\<forall>t \<in> set ts. t \<noteq> [] \<and> plain t \<Longrightarrow> parseShellArgs (join_space ts) = ts"
  using parse_loop_join [of ts "[]"] by (simp add: parseShellArgs_finish)

lemma parseShellArgs_examples:
  "parseShellArgs (''--tag='' @ [dquote] @ ''v1.0'' @ [dquote] @ '' --flag'') = [''--tag=v1.0'', ''--flag'']"
  "parseShellArgs [] = []"
  "parseShellArgs ([squote] @ ''a b'' @ [squote] @ '' c'') = [''a b'', ''c'']"
  by (simp_all add: parseShellArgs_def dquote_def squote_def space_def)

text \<open>
  C7.  For every environment, revision, verbosity and options string the argument
  vector is \<open>['deploy', environment, '--revision=' + revision]\<close>, then the flag
  \<open>'-' + verbosity\<close> when the verbosity is not empty, then the parsed options, in this
  order; for \<open>production\<close>, \<open>abc123\<close>, \<open>vv\<close> and \<open>--parallel --limit=5\<close> it is
  \<open>['deploy', 'production', '--revision=abc123', '-vv', '--parallel', '--limit=5']\<close>.
\<close>

theorem deploy_args_order:
  "deploy_args e r v opts =
     [''deploy'', e, ''--revision='' @ r] @ (if v \<noteq> [] then [''-'' @ v] else []) @ parseShellArgs opts
   \<and> deploy_args ''production'' ''abc123'' ''vv'' ''--parallel --limit=5'' =
     [''deploy'', ''production'', ''--revision=abc123'', ''-vv'', ''--parallel'', ''--limit=5'']"
proof
  show "deploy_args e r v opts =
     [''deploy'', e, ''--revision='' @ r] @ (if v \<noteq> [] then [''-'' @ v] else []) @ parseShellArgs opts"
    by (cases "opts = []") (simp_all add: deploy_args_def parseShellArgs_empty)
  show "deploy_args ''production'' ''abc123'' ''vv'' ''--parallel --limit=5'' =
     [''deploy'', ''production'', ''--revision=abc123'', ''-vv'', ''--parallel'', ''--limit=5'']"
    by (simp add: deploy_args_def parseShellArgs_def dquote_def squote_def space_def)
qed

theorem deploy_args_order_witness:
  "deploy_args ''staging'' ''f00'' [] ''--limit=1'' = [''deploy'', ''staging'', ''--revision=f00'', ''--limit=1'']"
  using deploy_args_order [of "''staging''" "''f00''" "[]" "''--limit=1''"]
  by (simp add: parseShellArgs_def dquote_def squote_def space_def)

text \<open>
  C8.  When no token of \<open>parseShellArgs s\<close> contains a space or a quote character,
  parsing the tokens joined by single spaces gives the same tokens again.
\<close>

theorem parseShellArgs_idempotent:
  "\<forall>t \<in> set (parseShellArgs s). \<forall>c \<in> set t. c \<noteq> space \<and> c \<noteq> dquote \<and> c \<noteq> squote \<Longrightarrow>
   parseShellArgs (join_space (parseShellArgs s)) = parseShellArgs s"
  by (rule parseShellArgs_join) (auto simp: plain_def dest: parseShellArgs_nonempty)

theorem parseShellArgs_idempotent_witness:
  "parseShellArgs (''--tag='' @ [dquote] @ ''v1.0'' @ [dquote] @ ''  --flag  '') = [''--tag=v1.0'', ''--flag'']
   \<and> parseShellArgs (join_space [''--tag=v1.0'', ''--flag'']) = [''--tag=v1.0'', ''--flag'']"
proof -
  let ?s = "''--tag='' @ [dquote] @ ''v1.0'' @ [dquote] @ ''  --flag  ''"
  have p: "parseShellArgs ?s = [''--tag=v1.0'', ''--flag'']"
    by (simp add: parseShellArgs_def dquote_def squote_def space_def)
  have "\<forall>t \<in> set (parseShellArgs ?s). \<forall>c \<in> set t. c \<noteq> space \<and> c \<noteq> dquote \<and> c \<noteq> squote"
    unfolding p by (simp add: dquote_def squote_def space_def)
  from parseShellArgs_idempotent [OF this] p show ?thesis by simp
qed

text \<open>
  C9.  Every non-empty verbosity string \<open>v\<close> is passed on as the argument \<open>'-' + v\<close>,
  right after the revision, whether or not it is one of \<open>v\<close>, \<open>vv\<close>, \<open>vvv\<close>: the
  verbosity \<open>x\<close> gives the argument \<open>-x\<close>.
\<close>

theorem verbosity_not_validated:
  "v \<noteq> [] \<Longrightarrow>
   deploy_args e r v opts = [''deploy'', e, ''--revision='' @ r, ''-'' @ v] @ parseShellArgs opts"
  by (cases "opts = []") (simp_all add: deploy_args_def parseShellArgs_empty)

theorem verbosity_not_validated_witness:
  "deploy_args ''production'' ''abc123'' ''x'' [] = [''deploy'', ''production'', ''--revision=abc123'', ''-x'']"
  using verbosity_not_validated [of "''x''" "''production''" "''abc123''" "[]"]
  by (simp add: parseShellArgs_empty)

section \<open>Properties of validatePathWithinBase\<close>

lemmas path_eval = path_resolve_def normalizeString_def isAbsolute_def slash_def startsWith_def

lemma validatePathWithinBase_examples:
  "validatePathWithinBase ''/work'' ''app'' ''vendor/bin/dep'' = Inr ()"
  "validatePathWithinBase ''/work'' ''app'' ''../secrets'' = Inl (PathEscape ''../secrets'')"
  "validatePathWithinBase ''/work'' ''app'' ''/etc/passwd'' = Inl (PathEscape ''/etc/passwd'')"
  by (simp_all add: validatePathWithinBase_def path_eval)

lemma startsWith_append: "startsWith s (p @ q) \<Longrightarrow> startsWith s p"
proof -
  assume "startsWith s (p @ q)"
  then have "take (length p) (take (length (p @ q)) s) = take (length p) (p @ q)"
    by (simp only: startsWith_def)
  then show ?thesis by (simp add: startsWith_def)
qed

lemma within_base_accepted:
  "within_base (path_resolve c [b]) (path_resolve c [b, t]) \<Longrightarrow>
   validatePathWithinBase c b t = Inr ()"
proof -
  let ?base = "path_resolve c [b]" and ?target = "path_resolve c [b, t]"
  assume "within_base ?base ?target"
  then consider "?target = ?base" | "startsWith ?target ?base" | "startsWith ?target (?base @ [slash])"
    by (auto simp: within_base_def split: if_splits)
  then have "startsWith ?target ?base"
  proof cases
    case 1
    then show ?thesis by (simp add: startsWith_def)
  next
    case 2
    then show ?thesis .
  next
    case 3
    then show ?thesis by (rule startsWith_append)
  qed
  then show ?thesis by (simp add: validatePathWithinBase_def)
qed

text \<open>
  C4.  The base \<open>app\<close> and the candidate \<open>../app-backup/x\<close>, in the working directory
  \<open>/work\<close>: the candidate resolves to \<open>/work/app-backup/x\<close>, a sibling of the base
  \<open>/work/app\<close> and not within it, and \<open>validatePathWithinBase\<close> returns without an
  error.
\<close>

theorem sibling_directory_accepted:
  "path_resolve ''/work'' [''app''] = ''/work/app''
   \<and> path_resolve ''/work'' [''app'', ''../app-backup/x''] = ''/work/app-backup/x''
   \<and> \<not> within_base ''/work/app'' ''/work/app-backup/x''
   \<and> validatePathWithinBase ''/work'' ''app'' ''../app-backup/x'' = Inr ()"
  by (simp add: validatePathWithinBase_def within_base_def path_eval)

section \<open>Properties of the timeout input\<close>

lemmas timeout_eval = parse_timeout_def parseInt10_def is_space_def is_digit_def digit_value_def

lemma parse_timeout_examples:
  "parse_timeout [] = Inr None"
  "parse_timeout ''30000'' = Inr (Some (Num 30000))"
  "parse_timeout ''-5'' = Inl (InvalidTimeout ''-5'')"
  "parse_timeout ''12abc'' = Inr (Some (Num 12))"
  by (simp_all add: timeout_eval)

text \<open>
  C3.  The timeout inputs \<open>abc\<close> (not numeric) and \<open>0\<close> (not positive) raise no
  error: \<open>parseInt\<close> gives \<open>NaN\<close> and \<open>0\<close>, both falsy, so the test
  \<open>timeoutMs && (...)\<close> is false before \<open>isNaN\<close> and \<open><= 0\<close> are looked at, and the
  deployment is run, with a \<open>timeoutMs\<close> that sets no timer.
\<close>

theorem invalid_timeout_not_rejected:
  "parse_timeout ''abc'' = Inr (Some NaN) \<and> \<not> truthy (Some NaN)
   \<and> parse_timeout ''0'' = Inr (Some (Num 0)) \<and> \<not> truthy (Some (Num 0))"
  by (simp add: timeout_eval)

section \<open>Frame properties\<close>

lemma same_but_files_refl: "same_but_files w w"
  by (simp add: same_but_files_def)

lemma same_but_files_trans: "same_but_files w w' \<Longrightarrow> same_but_files w' w'' \<Longrightarrow> same_but_files w w''"
  by (simp add: same_but_files_def)

lemma fs_writeFile_same: "fs_writeFile pf p d m w = Inr w' \<Longrightarrow> same_but_files w w'"
  by (auto simp: fs_writeFile_def Let_def same_but_files_def split: option.splits)

lemma fs_unlink_same: "fs_unlink pf p w = Inr w' \<Longrightarrow> same_but_files w w'"
  by (auto simp: fs_unlink_def Let_def same_but_files_def split: option.splits)

lemma fs_chmod_same: "fs_chmod pf p m w = Inr w' \<Longrightarrow> same_but_files w w'"
  by (auto simp: fs_chmod_def Let_def same_but_files_def split: option.splits)

lemma fs_mkdirP_same: "fs_mkdirP pf d w = Inr w' \<Longrightarrow> same_but_files w w'"
  by (auto simp: fs_mkdirP_def same_but_files_def split: option.splits)

lemma fs_chmod_dir_same: "fs_chmod_dir pf d m w = Inr w' \<Longrightarrow> same_but_files w w'"
  by (auto simp: fs_chmod_dir_def same_but_files_def split: option.splits)

lemma ignore_unlink_same: "same_but_files w (ignore_failure (fs_unlink pf p) w)"
  by (auto simp: ignore_failure_def same_but_files_refl split: sum.splits dest: fs_unlink_same)

lemma remove_sockets_same: "same_but_files w (remove_sockets pf d sockets w)"
proof (induction sockets arbitrary: w)
  case Nil
  show ?case by (simp add: same_but_files_refl)
next
  case (Cons s sockets)
  show ?case
    using same_but_files_trans [OF ignore_unlink_same Cons.IH] by simp
qed

lemma cleanupSSH_same:
  "env (cleanupSSH pf cfg w) = env w"
  "outputs (cleanupSSH pf cfg w) = outputs w"
  "failure (cleanupSSH pf cfg w) = failure w"
  "trace (cleanupSSH pf cfg w) = trace w @ cleanup_events (env w ''SSH_AGENT_PID'')"
proof -
  define w1 where "w1 = emit (StartGroup ''Cleaning up SSH'') w"
  define key where "key = path_join (path_join (homedir pf) ''.ssh'') ''deployer_action_key''"
  define hosts where "hosts = path_join (path_join (homedir pf) ''.ssh'') ''deployer_action_known_hosts''"
  define w2 where "w2 = ignore_failure (fs_unlink pf key) w1"
  define w3 where "w3 = ignore_failure (fs_unlink pf hosts) w2"
  define w4 where "w4 = (case cfg of None \<Rightarrow> w3
               | Some p \<Rightarrow> if p \<noteq> [] then ignore_failure (fs_unlink pf p) w3 else w3)"
  define w5 where "w5 = (case fs_readdir pf (tmpdir pf) w4 of
                 Inl e \<Rightarrow> w4
               | Inr tmpFiles \<Rightarrow>
                   remove_sockets pf (tmpdir pf) (filter (\<lambda>f. startsWith f ''ssh_mux_'') tmpFiles) w4)"
  define w6 where "w6 = (case env w5 ''SSH_AGENT_PID'' of
                 None \<Rightarrow> w5
               | Some agentPid \<Rightarrow>
                   if agentPid \<noteq> [] then emit (Exec ''ssh-agent'' [''-k'']) w5 else w5)"
  have c: "cleanupSSH pf cfg w = emit EndGroup w6"
    unfolding cleanupSSH_def Let_def w1_def w2_def w3_def w4_def w5_def w6_def key_def hosts_def
    by (rule refl)
  have "same_but_files w1 w2" "same_but_files w2 w3"
    by (simp_all add: w2_def w3_def ignore_unlink_same)
  moreover have "same_but_files w3 w4"
    by (simp add: w4_def ignore_unlink_same same_but_files_refl split: option.splits)
  moreover have "same_but_files w4 w5"
    by (simp add: w5_def remove_sockets_same same_but_files_refl split: sum.splits)
  ultimately have s: "same_but_files w1 w5"
    by (blast intro: same_but_files_trans)
  then have e: "env w5 = env w" "outputs w5 = outputs w" "failure w5 = failure w"
    "trace w5 = trace w @ [StartGroup ''Cleaning up SSH'']"
    by (simp_all add: same_but_files_def w1_def emit_def)
  show "env (cleanupSSH pf cfg w) = env w"
    unfolding c w6_def using e by (simp add: emit_def split: option.splits)
  show "outputs (cleanupSSH pf cfg w) = outputs w"
    unfolding c w6_def using e by (simp add: emit_def split: option.splits)
  show "failure (cleanupSSH pf cfg w) = failure w"
    unfolding c w6_def using e by (simp add: emit_def split: option.splits)
  show "trace (cleanupSSH pf cfg w) = trace w @ cleanup_events (env w ''SSH_AGENT_PID'')"
    unfolding c w6_def using e by (simp add: emit_def cleanup_events_def split: option.splits)
qed

lemma attempt_cases:
  assumes "attempt call w continue = r"
  obtains (failed) e where "call w = Inl e" "r = (Inl e, w)"
        | (passed) w' where "call w = Inr w'" "continue w' = r"
  using assms by (auto simp: attempt_def split: sum.splits)

lemma advances_refl: "advances w w"
  by (simp add: advances_def)

lemma advances_trans: "advances w w' \<Longrightarrow> advances w' w'' \<Longrightarrow> advances w w''"
  by (auto simp: advances_def)

lemma same_advances: "same_but_files w w' \<Longrightarrow> advances w w'"
  by (simp add: advances_def same_but_files_def)

lemma emit_advances: "silent e \<Longrightarrow> advances w (emit e w)"
  by (simp add: advances_def emit_def)

lemma exportVariable_advances: "advances w (exportVariable n v w)"
  by (simp add: advances_def emit_def exportVariable_def)

lemma attempt_advances:
  assumes "\<And>w'. call w = Inr w' \<Longrightarrow> same_but_files w w'"
    and "\<And>w'. same_but_files w w' \<Longrightarrow> advances w' (snd (continue w'))"
  shows "advances w (snd (attempt call w continue))"
proof (cases "call w")
  case (Inl e)
  then show ?thesis by (simp add: attempt_def advances_refl)
next
  case (Inr w')
  then show ?thesis
    using assms(1) [OF Inr] assms(2) [of w'] 
    by (auto simp: attempt_def intro: advances_trans same_advances)
qed

lemma setupSSH_advances: "advances w (snd (setupSSH pf k h port w))"
proof -
  have start: "advances w (emit (StartGroup ''Setting up SSH'') w)"
    by (simp add: emit_advances)
  show ?thesis
    unfolding setupSSH_def Let_def
    apply (rule advances_trans [OF start])
    apply (rule attempt_advances, erule fs_mkdirP_same)
    apply (rule attempt_advances, erule fs_chmod_dir_same)
    apply (rule attempt_advances, erule fs_writeFile_same)
    apply (rule attempt_advances)
     apply (auto simp: same_but_files_refl split: if_splits dest: fs_writeFile_same)[1]
    apply (rule attempt_advances, erule fs_writeFile_same)
    apply (simp add: advances_def emit_def exportVariable_def split: sum.splits option.splits)
    done
qed

lemma verifyDeployerBinary_advances:
  "advances w (snd (verifyDeployerBinary pf b d w))"
  "env (snd (verifyDeployerBinary pf b d w)) = env w"
  by (auto simp: verifyDeployerBinary_def Let_def advances_def emit_def same_but_files_def
      split: sum.splits if_splits prod.splits dest!: fs_chmod_same)

lemma runDeployment_advances:
  assumes "runDeployment pf b e r d v opts t w = Some (res, w')"
  shows "advances w w'" and "env w' = env w"
    and "res = Inr out \<Longrightarrow> out = concat (map snd (chunks (deploy pf)))"
  using assms
  by (auto simp: runDeployment_def Let_def advances_def emit_def
      split: awaited.splits settle.splits if_splits option.splits)

lemma catch_block_result:
  "outputs (catch_block pf cfg err w) = (outputs w)(''deployment-status'' \<mapsto> ''failed'')"
  "failure (catch_block pf cfg err w) = Some (''Action failed: '' @ message err)"
  "env (catch_block pf cfg err w) = env w"
  "trace (catch_block pf cfg err w) =
     trace w @ [SetFailed (''Action failed: '' @ message err), SetOutput ''deployment-status'' ''failed''] @
     cleanup_events (env w ''SSH_AGENT_PID'')"
  by (simp_all add: catch_block_def Let_def cleanupSSH_same setOutput_def setFailed_def emit_def)

lemma catch_block_failed_run: "advances w w1 \<Longrightarrow> failed_run w (catch_block pf cfg err w1)"
proof -
  assume "advances w w1"
  then obtain es where es: "trace w1 = trace w @ es" "list_all silent es"
    and same: "outputs w1 = outputs w" "failure w1 = failure w"
    by (auto simp: advances_def)
  show ?thesis
    unfolding failed_run_def
    by (rule exI [of _ es], rule exI [of _ "''Action failed: '' @ message err"],
        rule exI [of _ "env w1 ''SSH_AGENT_PID''"])
       (simp add: catch_block_result es same)
qed

lemma run_shape:
  assumes "run pf w = Some w'"
  shows "successful_run pf w w' \<or> failed_run w w'"
proof (cases "getInputs pf")
  case (Inl e)
  with assms show ?thesis
    by (auto simp: run_def intro: catch_block_failed_run advances_refl)
next
  case (Inr inputs)
  obtain r1 w1 where s: "setupSSH pf (sshPrivateKey inputs) (sshKnownHosts inputs) (sshPort inputs) w = (r1, w1)"
    by (cases "setupSSH pf (sshPrivateKey inputs) (sshKnownHosts inputs) (sshPort inputs) w")
  have a1: "advances w w1"
    using setupSSH_advances [of w pf "sshPrivateKey inputs" "sshKnownHosts inputs" "sshPort inputs"] s by simp
  show ?thesis
  proof (cases r1)
    case (Inl e)
    with assms Inr s a1 show ?thesis
      by (auto simp: run_def intro: catch_block_failed_run)
  next
    case cfg: (Inr sshConfigPath)
    obtain r2 w2 where v: "verifyDeployerBinary pf (deployerBinary inputs) (workingDirectory inputs) w1 = (r2, w2)"
      by (cases "verifyDeployerBinary pf (deployerBinary inputs) (workingDirectory inputs) w1")
    have a2: "advances w w2"
      using verifyDeployerBinary_advances(1) [of w1 pf "deployerBinary inputs" "workingDirectory inputs"] v a1
      by (auto intro: advances_trans)
    show ?thesis
    proof (cases r2)
      case (Inl e)
      with assms Inr s cfg v a2 show ?thesis
        by (auto simp: run_def intro: catch_block_failed_run)
    next
      case ok: (Inr u)
      show ?thesis
      proof (cases "parse_timeout (timeout inputs)")
        case (Inl e)
        with assms Inr s cfg v ok a2 show ?thesis
          by (auto simp: run_def intro: catch_block_failed_run)
      next
        case t: (Inr timeoutMs)
        from assms Inr s cfg v ok t obtain res w3 where
          d: "runDeployment pf (deployerBinary inputs) (environment inputs) (revision inputs)
             (workingDirectory inputs) (verbosity inputs) (options inputs) timeoutMs w2 = Some (res, w3)"
          by (auto simp: run_def split: option.splits)
        have a3: "advances w w3"
          using runDeployment_advances(1) [OF d] a2 by (auto intro: advances_trans)
        show ?thesis
        proof (cases res)
          case (Inl e)
          with assms Inr s cfg v ok t d a3 show ?thesis
            by (auto simp: run_def intro: catch_block_failed_run)
        next
          case out: (Inr captured)
          have o: "captured = concat (map snd (chunks (deploy pf)))"
            using runDeployment_advances(3) [OF d out] .
          have w': "w' = cleanupSSH pf (Some sshConfigPath)
                (setOutput ''deployer-output'' captured (setOutput ''deployment-status'' ''success'' w3))"
            using assms Inr s cfg v ok t d out by (simp add: run_def Let_def)
          from a3 obtain es where es: "trace w3 = trace w @ es" "list_all silent es"
            and same: "outputs w3 = outputs w" "failure w3 = failure w"
            by (auto simp: advances_def)
          have "successful_run pf w w'"
            unfolding successful_run_def w' o
            by (rule exI [of _ es], rule exI [of _ "env w3 ''SSH_AGENT_PID''"])
               (simp add: cleanupSSH_same setOutput_def emit_def es same)
          then show ?thesis ..
        qed
      qed
    qed
  qed
qed

section \<open>The example runs\<close>

lemmas path_join_eval = path_join_def path_normalize_def path_resolve_def normalizeString_def isAbsolute_def slash_def startsWith_def abs_path_def

lemma runner_sel:
  "action_input (runner a d) = runner_inputs"
  "homedir (runner a d) = ''/home/runner''"
  "tmpdir (runner a d) = ''/tmp''"
  "cwd (runner a d) = ''/work''"
  "now (runner a d) = 1700000000000"
  "io_error (runner a d) p = None"
  "agent_start (runner a d) = Inr a"
  "ssh_add (runner a d) = None"
  "version_probe (runner a d) = Inr (''Deployer 7.3.0'', 0)"
  "deploy (runner a d) = d"
  "timer_wins_tie (runner a d) = False"
  by (simp_all add: runner_def)

lemma runner_paths:
  "path_join ''/home/runner'' ''.ssh'' = ''/home/runner/.ssh''"
  "path_join ''/home/runner/.ssh'' ''deployer_action_key'' = ''/home/runner/.ssh/deployer_action_key''"
  "path_join ''/home/runner/.ssh'' ''deployer_action_known_hosts'' = ''/home/runner/.ssh/deployer_action_known_hosts''"
  "show_nat 1700000000000 = ''1700000000000''"
  "path_join ''/tmp'' ''ssh_config_deployer_1700000000000'' = ''/tmp/ssh_config_deployer_1700000000000''"
  "path_join ''/tmp'' ''ssh_mux_%h_%p_%r'' = ''/tmp/ssh_mux_%h_%p_%r''"
  "path_join ''.'' ''vendor/bin/dep'' = ''vendor/bin/dep''"
  by (simp_all add: path_join_eval show_nat.simps)

lemma runner_abs:
  "path_resolve ''/work'' [''/home/runner/.ssh''] = ''/home/runner/.ssh''"
  "path_resolve ''/work'' [''/home/runner/.ssh/deployer_action_key''] = ''/home/runner/.ssh/deployer_action_key''"
  "path_resolve ''/work'' [''/home/runner/.ssh/deployer_action_known_hosts''] = ''/home/runner/.ssh/deployer_action_known_hosts''"
  "path_resolve ''/work'' [''/tmp/ssh_config_deployer_1700000000000''] = ''/tmp/ssh_config_deployer_1700000000000''"
  "path_resolve ''/work'' [''/tmp''] = ''/tmp''"
  "path_resolve ''/work'' [''vendor/bin/dep''] = ''/work/vendor/bin/dep''"
  by (simp_all add: path_join_eval)

lemma agent_ok_match:
  "match_assignment ''SSH_AUTH_SOCK='' agent_ok = Some ''/tmp/agent.1''"
  "match_assignment ''SSH_AGENT_PID='' agent_ok = Some ''42''"
  by (simp_all add: agent_ok_def startsWith_def value_char_def is_space_def)

lemmas fs_eval = fs_mkdirP_def fs_chmod_dir_def fs_writeFile_def fs_unlink_def fs_chmod_def
  fs_exists_def fs_executable_def fs_readdir_def abs_path_def remove_entry_def

lemmas setup_eval = setupSSH_def attempt_def Let_def runner_sel runner_paths runner_abs
  fs_eval emit_def exportVariable_def checkout_def configured_def agent_added_def

lemma getInputs_runner:
  "getInputs (runner a d) =
     Inr \<lparr>sshPrivateKey = ''KEY'', environment = ''production'', revision = ''abc123'',
          deployerBinary = ''vendor/bin/dep'', sshKnownHosts = [], sshPort = ''22'',
          workingDirectory = ''.'', verbosity = [], options = [], timeout = []\<rparr>"
  by (simp add: getInputs_def getInput_def optionalInput_def runner_sel runner_inputs_def
      js_trim_def is_space_def)

lemma setupSSH_runner:
  "setupSSH (runner agent_ok d) ''KEY'' [] ''22'' checkout =
     (Inr ''/tmp/ssh_config_deployer_1700000000000'', agent_added)"
  by (simp add: setup_eval agent_ok_match)

lemma garbage_match: "match_assignment ''SSH_AUTH_SOCK='' ''garbage'' = None"
  by (simp add: startsWith_def)

lemma setupSSH_runner_garbage:
  "setupSSH (runner ''garbage'' d) ''KEY'' [] ''22'' checkout = (Inl AgentParseError, configured)"
  by (simp add: setup_eval garbage_match)

lemma verifyDeployerBinary_runner:
  "verifyDeployerBinary (runner a d) ''vendor/bin/dep'' ''.'' agent_added =
     (Inr (),
      agent_added\<lparr>trace := trace agent_added @
        [StartGroup ''Verifying Deployer'', Exec ''vendor/bin/dep'' [''--version''], EndGroup]\<rparr>)"
  by (simp add: verifyDeployerBinary_def validatePathWithinBase_def Let_def runner_sel runner_paths
      runner_abs fs_eval emit_def agent_added_def configured_def path_resolve_def
      normalizeString_def isAbsolute_def slash_def startsWith_def)

lemma runDeployment_no_timer:
  assumes "\<not> truthy t" and "settles (deploy pf) = Some (at, Resolves c)"
  shows "runDeployment pf b e r d v opts t w =
     Some (if c \<noteq> 0 then Inl (DeploymentFailed c) else Inr (concat (map snd (chunks (deploy pf)))),
           w\<lparr>trace := trace w @
             [StartGroup (''Deploying to '' @ e), Exec b (deploy_args e r v opts), EndGroup]\<rparr>)"
  using assms by (simp add: runDeployment_def race_def emit_def Let_def)

section \<open>Files after cleanup\<close>

lemma map_of_remove_entry: "map_of (remove_entry a fs) b = (if b = a then None else map_of fs b)"
  by (induction fs) (auto simp: remove_entry_def)

lemma unlink_gone:
  "io_error pf (abs_path pf p) = None \<Longrightarrow>
   map_of (files (ignore_failure (fs_unlink pf p) w)) (abs_path pf p) = None"
  by (simp add: ignore_failure_def fs_unlink_def Let_def map_of_remove_entry split: option.splits)

lemma unlink_keeps_gone:
  "map_of (files w) a = None \<Longrightarrow> map_of (files (ignore_failure (fs_unlink pf p) w)) a = None"
  by (simp add: ignore_failure_def fs_unlink_def Let_def map_of_remove_entry split: option.splits)

lemma remove_sockets_keeps_gone:
  "map_of (files w) a = None \<Longrightarrow> map_of (files (remove_sockets pf d sockets w)) a = None"
  by (induction sockets arbitrary: w) (simp_all add: unlink_keeps_gone)

lemma cleanupSSH_config_gone:
  assumes "p \<noteq> []" and "io_error pf (abs_path pf p) = None"
  shows "map_of (files (cleanupSSH pf (Some p) w)) (abs_path pf p) = None"
proof -
  define w3 where "w3 =
    ignore_failure (fs_unlink pf (path_join (path_join (homedir pf) ''.ssh'') ''deployer_action_known_hosts''))
      (ignore_failure (fs_unlink pf (path_join (path_join (homedir pf) ''.ssh'') ''deployer_action_key''))
        (emit (StartGroup ''Cleaning up SSH'') w))"
  define w4 where "w4 = ignore_failure (fs_unlink pf p) w3"
  define w5 where "w5 = (case fs_readdir pf (tmpdir pf) w4 of
                 Inl e \<Rightarrow> w4
               | Inr tmpFiles \<Rightarrow>
                   remove_sockets pf (tmpdir pf) (filter (\<lambda>f. startsWith f ''ssh_mux_'') tmpFiles) w4)"
  have "map_of (files w4) (abs_path pf p) = None"
    unfolding w4_def using assms(2) by (rule unlink_gone)
  then have gone: "map_of (files w5) (abs_path pf p) = None"
    by (simp add: w5_def remove_sockets_keeps_gone split: sum.splits)
  have "cleanupSSH pf (Some p) w =
      emit EndGroup
        (case env w5 ''SSH_AGENT_PID'' of
           None \<Rightarrow> w5
         | Some agentPid \<Rightarrow> if agentPid \<noteq> [] then emit (Exec ''ssh-agent'' [''-k'']) w5 else w5)"
    unfolding cleanupSSH_def Let_def w3_def w4_def w5_def
    using assms(1) by (simp only: option.case if_True simp_thms)
  then have "files (cleanupSSH pf (Some p) w) = files w5"
    by (simp add: emit_def split: option.splits)
  with gone show ?thesis by simp
qed

section \<open>The environment\<close>

lemma match_assignment_nonempty: "match_assignment name s = Some v \<Longrightarrow> v \<noteq> []"
  by (induction name s rule: match_assignment.induct) (auto simp: Let_def split: if_splits)

lemma path_join_nonempty: "path_join a b \<noteq> []"
  by (simp add: path_join_def path_normalize_def Let_def)

lemma fs_writeFile_ok: "fs_writeFile pf p d m w = Inr w' \<Longrightarrow> io_error pf (abs_path pf p) = None"
  by (auto simp: fs_writeFile_def Let_def split: option.splits)

lemma setupSSH_success:
  assumes "setupSSH pf k h port w = (Inr cfg, w1)"
  shows "cfg \<noteq> []" and "io_error pf (abs_path pf cfg) = None"
    and "env w1 ''GIT_SSH_COMMAND'' = Some (''ssh -F '' @ cfg)"
    and "\<exists>sock. env w1 ''SSH_AUTH_SOCK'' = Some sock \<and> sock \<noteq> []"
    and "\<exists>pid. env w1 ''SSH_AGENT_PID'' = Some pid \<and> pid \<noteq> []"
  using assms
  by (auto simp: setupSSH_def attempt_def Let_def exportVariable_def emit_def path_join_nonempty
      split: sum.splits option.splits dest: fs_writeFile_ok match_assignment_nonempty)

lemma catch_block_unfold:
  "catch_block pf cfg err w =
     cleanupSSH pf cfg
       (setOutput ''deployment-status'' ''failed'' (setFailed (''Action failed: '' @ message err) w))"
  by (simp add: catch_block_def Let_def)

lemma run_env:
  assumes "getInputs pf = Inr inputs"
    and "setupSSH pf (sshPrivateKey inputs) (sshKnownHosts inputs) (sshPort inputs) w = (Inr cfg, w1)"
    and "run pf w = Some w'"
  shows "env w' = env w1" and "map_of (files w') (abs_path pf cfg) = None"
proof -
  note gone = cleanupSSH_config_gone [OF setupSSH_success(1,2) [OF assms(2)]]
  obtain r2 w2 where v: "verifyDeployerBinary pf (deployerBinary inputs) (workingDirectory inputs) w1 = (r2, w2)"
    by (cases "verifyDeployerBinary pf (deployerBinary inputs) (workingDirectory inputs) w1")
  have e2: "env w2 = env w1"
    using verifyDeployerBinary_advances(2) [of pf "deployerBinary inputs" "workingDirectory inputs" w1] v
    by simp
  have "env w' = env w1 \<and> map_of (files w') (abs_path pf cfg) = None"
  proof (cases r2)
    case (Inl e)
    with assms v have "w' = catch_block pf (Some cfg) e w2" by (simp add: run_def)
    then show ?thesis using e2 gone by (simp add: catch_block_unfold cleanupSSH_same setOutput_def setFailed_def emit_def)
  next
    case ok: (Inr u)
    show ?thesis
    proof (cases "parse_timeout (timeout inputs)")
      case (Inl e)
      with assms v ok have "w' = catch_block pf (Some cfg) e w2" by (simp add: run_def)
      then show ?thesis using e2 gone by (simp add: catch_block_unfold cleanupSSH_same setOutput_def setFailed_def emit_def)
    next
      case t: (Inr timeoutMs)
      from assms v ok t obtain res w3 where
        d: "runDeployment pf (deployerBinary inputs) (environment inputs) (revision inputs)
           (workingDirectory inputs) (verbosity inputs) (options inputs) timeoutMs w2 = Some (res, w3)"
        by (auto simp: run_def split: option.splits)
      have e3: "env w3 = env w1"
        using runDeployment_advances(2) [OF d] e2 by simp
      show ?thesis
      proof (cases res)
        case (Inl e)
        with assms v ok t d have "w' = catch_block pf (Some cfg) e w3" by (simp add: run_def)
        then show ?thesis using e3 gone by (simp add: catch_block_unfold cleanupSSH_same setOutput_def setFailed_def emit_def)
      next
        case (Inr captured)
        with assms v ok t d have "w' = cleanupSSH pf (Some cfg)
            (setOutput ''deployer-output'' captured (setOutput ''deployment-status'' ''success'' w3))"
          by (simp add: run_def Let_def)
        then show ?thesis using e3 gone by (simp add: cleanupSSH_same setOutput_def emit_def)
      qed
    qed
  qed
  then show "env w' = env w1" and "map_of (files w') (abs_path pf cfg) = None" by simp_all
qed

lemma run_runner:
  assumes "settles d = Some (at, Resolves c)"
  shows "run (runner agent_ok d) checkout =
     Some (if c \<noteq> 0
           then catch_block (runner agent_ok d) (Some ''/tmp/ssh_config_deployer_1700000000000'')
                  (DeploymentFailed c) deployed
           else cleanupSSH (runner agent_ok d) (Some ''/tmp/ssh_config_deployer_1700000000000'')
                  (setOutput ''deployer-output'' (concat (map snd (chunks d)))
                    (setOutput ''deployment-status'' ''success'' deployed)))"
proof -
  have t: "parse_timeout [] = Inr None"
    by (simp add: parse_timeout_def)
  have d: "runDeployment (runner agent_ok d) ''vendor/bin/dep'' ''production'' ''abc123'' ''.'' [] [] None
      (agent_added\<lparr>trace := trace agent_added @
        [StartGroup ''Verifying Deployer'', Exec ''vendor/bin/dep'' [''--version''], EndGroup]\<rparr>) =
     Some (if c \<noteq> 0 then Inl (DeploymentFailed c) else Inr (concat (map snd (chunks d))), deployed)"
    using assms
    by (subst runDeployment_no_timer [of None _ at c])
       (simp_all add: runner_sel deployed_def deploy_args_def)
  show ?thesis
    by (simp add: run_def getInputs_runner setupSSH_runner verifyDeployerBinary_runner t d Let_def)
qed

section \<open>The outcome of a run\<close>

lemma run_failing_deploy:
  "run (runner agent_ok failing_deploy) checkout =
     Some (catch_block (runner agent_ok failing_deploy)
             (Some ''/tmp/ssh_config_deployer_1700000000000'') (DeploymentFailed 1) deployed)"
  using run_runner [of failing_deploy 1500 1] by (simp add: failing_deploy_def)

lemma run_passing_deploy:
  "run (runner agent_ok passing_deploy) checkout =
     Some (cleanupSSH (runner agent_ok passing_deploy)
             (Some ''/tmp/ssh_config_deployer_1700000000000'')
             (setOutput ''deployer-output'' ''OK''
               (setOutput ''deployment-status'' ''success'' deployed)))"
  using run_runner [of passing_deploy 1500 0] by (simp add: passing_deploy_def)

lemma deployed_sel:
  "outputs deployed = Map.empty"
  "failure deployed = None"
  "env deployed ''SSH_AGENT_PID'' = Some ''42''"
  "env deployed ''SSH_AUTH_SOCK'' = Some ''/tmp/agent.1''"
  "env deployed ''GIT_SSH_COMMAND'' = Some ''ssh -F /tmp/ssh_config_deployer_1700000000000''"
  by (simp_all add: deployed_def agent_added_def configured_def)

text \<open>
  C1 as stated fails: the deployment of this run prints output and exits with code 1;
  the run ends with \<open>deployment-status\<close> set to \<open>failed\<close> and with \<open>deployer-output\<close>
  not set.
\<close>

theorem failed_run_sets_no_deployer_output:
  "run (runner agent_ok failing_deploy) checkout \<noteq> None
   \<and> outputs (the (run (runner agent_ok failing_deploy) checkout)) ''deployment-status'' = Some ''failed''
   \<and> outputs (the (run (runner agent_ok failing_deploy) checkout)) ''deployer-output'' = None"
  by (simp add: run_failing_deploy catch_block_result deployed_sel)

text \<open>
  C1, amended.  A run that ends has set \<open>deployment-status\<close>, to \<open>success\<close> or to
  \<open>failed\<close>.  When the status is \<open>success\<close>, \<open>deployer-output\<close> is set to the whole
  captured output; when it is \<open>failed\<close>, the failure message is recorded and
  \<open>deployer-output\<close> is left as it was before the run.
\<close>

theorem outputs_at_termination:
  "run pf w = Some w' \<Longrightarrow>
     (outputs w' ''deployment-status'' = Some ''success''
      \<and> outputs w' ''deployer-output'' = Some (concat (map snd (chunks (deploy pf))))
      \<and> failure w' = failure w)
     \<or> (outputs w' ''deployment-status'' = Some ''failed''
        \<and> outputs w' ''deployer-output'' = outputs w ''deployer-output''
        \<and> failure w' \<noteq> None)"
proof -
  assume "run pf w = Some w'"
  then have "successful_run pf w w' \<or> failed_run w w'" by (rule run_shape)
  then show ?thesis
    by (auto simp: successful_run_def failed_run_def)
qed

theorem outputs_at_termination_witness:
  "outputs (the (run (runner agent_ok passing_deploy) checkout)) ''deployment-status'' = Some ''success''
   \<and> outputs (the (run (runner agent_ok passing_deploy) checkout)) ''deployer-output'' = Some ''OK''
   \<and> failure (the (run (runner agent_ok passing_deploy) checkout)) = None"
  using outputs_at_termination [of "runner agent_ok passing_deploy" checkout
      "the (run (runner agent_ok passing_deploy) checkout)"]
  by (simp add: run_passing_deploy cleanupSSH_same setOutput_def emit_def deployed_sel)

section \<open>Report and cleanup\<close>

lemma cleanup_precedes_report_silent:
  "list_all silent pre \<Longrightarrow> reports_outcome e \<Longrightarrow> \<not> cleanup_precedes_report False (pre @ e # es)"
proof (induction pre)
  case Nil
  then show ?case by simp
next
  case (Cons a pre)
  then have "\<not> reports_outcome a" and "\<not> starts_cleanup a"
    by (cases a; simp add: starts_cleanup_def)+
  with Cons show ?case by simp
qed

text \<open>
  C2 as stated fails: in the run whose deployment exits with code 1 the failure and
  the status are reported first and cleanup starts after them.
\<close>

theorem outcome_reported_before_cleanup:
  "trace (the (run (runner agent_ok failing_deploy) checkout)) =
     trace deployed @
     [SetFailed ''Action failed: Deployer command failed with exit code 1'',
      SetOutput ''deployment-status'' ''failed'',
      StartGroup ''Cleaning up SSH'', Exec ''ssh-agent'' [''-k''], EndGroup]
   \<and> list_all silent (trace deployed)
   \<and> \<not> cleanup_precedes_report False (trace (the (run (runner agent_ok failing_deploy) checkout)))"
proof -
  have s: "list_all silent (trace deployed)"
    by (simp add: deployed_def agent_added_def configured_def)
  have t: "trace (the (run (runner agent_ok failing_deploy) checkout)) =
     trace deployed @
     [SetFailed ''Action failed: Deployer command failed with exit code 1'',
      SetOutput ''deployment-status'' ''failed'',
      StartGroup ''Cleaning up SSH'', Exec ''ssh-agent'' [''-k''], EndGroup]"
    by (simp add: run_failing_deploy catch_block_result deployed_sel cleanup_events_def
        show_int_def show_nat.simps)
  show ?thesis
    unfolding t using s cleanup_precedes_report_silent [OF s] by simp
qed

text \<open>
  C2, amended.  In every run that ends, the outcome is reported and then
  \<open>cleanupSSH\<close> is attempted, once, as the last thing the run does: the events of the
  run are silent ones, then the report (the two outputs of a success, or the failure
  message and the \<open>failed\<close> status), then the events of one cleanup.  No run ends
  with cleanup skipped.
\<close>

theorem report_then_cleanup:
  "run pf w = Some w' \<Longrightarrow>
   \<exists>pre report pid.
     trace w' = trace w @ pre @ report @ cleanup_events pid \<and> list_all silent pre \<and>
     (report = [SetOutput ''deployment-status'' ''success'',
                SetOutput ''deployer-output'' (concat (map snd (chunks (deploy pf))))]
      \<or> (\<exists>msg. report = [SetFailed msg, SetOutput ''deployment-status'' ''failed'']))"
proof -
  assume "run pf w = Some w'"
  then have "successful_run pf w w' \<or> failed_run w w'" by (rule run_shape)
  then show ?thesis
    unfolding successful_run_def failed_run_def by (elim disjE exE conjE) (intro exI conjI, assumption, assumption, simp)+
qed

theorem report_then_cleanup_witness:
  "\<exists>pre report pid.
     trace (the (run (runner agent_ok passing_deploy) checkout)) = pre @ report @ cleanup_events pid \<and>
     list_all silent pre \<and>
     (report = [SetOutput ''deployment-status'' ''success'', SetOutput ''deployer-output'' ''OK'']
      \<or> (\<exists>msg. report = [SetFailed msg, SetOutput ''deployment-status'' ''failed'']))"
proof -
  have c: "concat (map snd (chunks (deploy (runner agent_ok passing_deploy)))) = ''OK''"
    by (simp add: runner_sel passing_deploy_def)
  have e: "trace checkout = []"
    by (simp add: checkout_def)
  show ?thesis
    using report_then_cleanup [OF run_passing_deploy]
    unfolding c e run_passing_deploy option.sel by simp
qed

section \<open>Setup that fails after the config file was written\<close>

lemma run_garbage_agent:
  "run (runner ''garbage'' d) checkout =
     Some (catch_block (runner ''garbage'' d) None AgentParseError configured)"
  by (simp add: run_def getInputs_runner setupSSH_runner_garbage)

lemma entry_in_tmp:
  "entry_in ''/tmp'' ''/tmp/ssh_config_deployer_1700000000000'' = Some ''ssh_config_deployer_1700000000000''"
  "entry_in ''/tmp'' ''/work/vendor/bin/dep'' = None"
  "startsWith ''ssh_config_deployer_1700000000000'' ''ssh_mux_'' = False"
  by (simp_all add: entry_in_def startsWith_def slash_def)

lemma cleanupSSH_configured:
  assumes "files w = files configured" and "env w ''SSH_AGENT_PID'' = None"
  shows "files (cleanupSSH (runner a d) None w) =
     [(''/tmp/ssh_config_deployer_1700000000000'',
       \<lparr>content = sshConfig [] ''/home/runner/.ssh/deployer_action_known_hosts''
            ''/home/runner/.ssh/deployer_action_key'' ''22'' ''/tmp/ssh_mux_%h_%p_%r'',
        mode = 384\<rparr>),
      (''/work/vendor/bin/dep'', \<lparr>content = ''#!php'', mode = 493\<rparr>)]"
  using assms
  by (simp add: cleanupSSH_def Let_def ignore_failure_def fs_eval emit_def runner_sel runner_paths
      runner_abs configured_def entry_in_tmp List.map_filter_def)

text \<open>
  C5.  \<open>ssh-agent\<close> announces nothing that can be parsed, so \<open>setupSSH\<close> throws after it
  has written the key file and the config file.  The run ends as failed; the key file
  is removed, the config file is still there: \<open>sshConfigPath\<close> was never assigned, and
  \<open>cleanupSSH\<close> is called without a path.
\<close>

theorem config_file_left_behind:
  "map_of (files configured) ''/tmp/ssh_config_deployer_1700000000000'' \<noteq> None
   \<and> map_of (files configured) ''/home/runner/.ssh/deployer_action_key'' \<noteq> None
   \<and> run (runner ''garbage'' passing_deploy) checkout =
       Some (catch_block (runner ''garbage'' passing_deploy) None AgentParseError configured)
   \<and> map_of (files (the (run (runner ''garbage'' passing_deploy) checkout)))
         ''/home/runner/.ssh/deployer_action_key'' = None
   \<and> map_of (files (the (run (runner ''garbage'' passing_deploy) checkout)))
         ''/tmp/ssh_config_deployer_1700000000000'' \<noteq> None"
proof -
  have f: "files (setOutput ''deployment-status'' ''failed''
             (setFailed (''Action failed: '' @ message AgentParseError) configured)) = files configured"
    by (simp add: setOutput_def setFailed_def emit_def)
  have e: "env (setOutput ''deployment-status'' ''failed''
             (setFailed (''Action failed: '' @ message AgentParseError) configured)) ''SSH_AGENT_PID'' = None"
    by (simp add: setOutput_def setFailed_def emit_def configured_def)
  have "files (the (run (runner ''garbage'' passing_deploy) checkout)) =
     [(''/tmp/ssh_config_deployer_1700000000000'',
       \<lparr>content = sshConfig [] ''/home/runner/.ssh/deployer_action_known_hosts''
            ''/home/runner/.ssh/deployer_action_key'' ''22'' ''/tmp/ssh_mux_%h_%p_%r'',
        mode = 384\<rparr>),
      (''/work/vendor/bin/dep'', \<lparr>content = ''#!php'', mode = 493\<rparr>)]"
    unfolding run_garbage_agent option.sel catch_block_unfold
    by (rule cleanupSSH_configured [OF f e])
  then show ?thesis
    by (simp add: run_garbage_agent configured_def)
qed

section \<open>The timeout race\<close>

lemma timer_delay_le: "0 < t \<Longrightarrow> timer_delay (Num t) \<le> nat t"
  by (simp add: timer_delay_def) arith

text \<open>
  C6.  With a positive timeout \<open>t\<close>, \<open>runDeployment\<close> always returns and the timer it
  set is cleared before it does: its events are the group, \<open>SetTimeout\<close>, the launch
  and \<open>ClearTimeout\<close>, followed at most by the closing of the group.  When the
  subprocess never settles, or settles later than \<open>t\<close> milliseconds after its launch,
  the result is the \<open>DeploymentTimeout\<close> error carrying \<open>t\<close>, never a success.
\<close>

theorem timeout_wins_race:
  assumes "0 < t"
  shows "\<exists>res rest.
     runDeployment pf b e r d v opts (Some (Num t)) w =
       Some (res, w\<lparr>trace := trace w @
         [StartGroup (''Deploying to '' @ e), SetTimeout (Num t), Exec b (deploy_args e r v opts),
          ClearTimeout] @ rest\<rparr>) \<and>
     (rest = [] \<or> rest = [EndGroup]) \<and>
     ((settles (deploy pf) = None \<or> (\<exists>at s. settles (deploy pf) = Some (at, s) \<and> nat t < at)) \<longrightarrow>
        res = Inl (DeploymentTimeout (Num t)) \<and> rest = [])"
proof -
  let ?late = "settles (deploy pf) = None \<or> (\<exists>at s. settles (deploy pf) = Some (at, s) \<and> nat t < at)"
  let ?events = "[StartGroup (''Deploying to '' @ e), SetTimeout (Num t),
    Exec b (deploy_args e r v opts), ClearTimeout]"
  have final: ?thesis
    if "runDeployment pf b e r d v opts (Some (Num t)) w =
          Some (res, w\<lparr>trace := trace w @ ?events @ rest\<rparr>)"
      and "rest = [] \<or> rest = [EndGroup]"
      and "?late \<longrightarrow> res = Inl (DeploymentTimeout (Num t)) \<and> rest = []"
    for res rest
    using that by blast
  have tr: "truthy (Some (Num t))" using assms by simp
  show ?thesis
  proof (cases "race pf (Some (Num t)) (settles (deploy pf))")
    case Pending
    then show ?thesis
      by (simp add: race_def split: option.splits prod.splits if_splits)
  next
    case (TimerFired t')
    then have t': "t' = Num t"
      by (simp add: race_def split: option.splits prod.splits if_splits)
    have "runDeployment pf b e r d v opts (Some (Num t)) w =
        Some (Inl (DeploymentTimeout (Num t)), w\<lparr>trace := trace w @ ?events @ []\<rparr>)"
      using tr TimerFired t' by (simp add: runDeployment_def Let_def emit_def)
    then show ?thesis by (rule final) simp_all
  next
    case (Settled s)
    then obtain at where at: "settles (deploy pf) = Some (at, s)" and late: "\<not> timer_delay (Num t) < at"
      by (auto simp: race_def split: option.splits prod.splits if_splits)
    from late timer_delay_le [OF assms] have early: "\<not> ?late" using at by simp
    show ?thesis
    proof (cases s)
      case (Rejects msg)
      with tr Settled have
        "runDeployment pf b e r d v opts (Some (Num t)) w =
           Some (Inl (External msg), w\<lparr>trace := trace w @ ?events @ []\<rparr>)"
        by (simp add: runDeployment_def Let_def emit_def)
      then show ?thesis by (rule final) (use early in simp_all)
    next
      case (Resolves exitCode)
      with tr Settled have
        "runDeployment pf b e r d v opts (Some (Num t)) w =
           Some (if exitCode \<noteq> 0 then Inl (DeploymentFailed exitCode)
                 else Inr (concat (map snd (chunks (deploy pf)))),
                 w\<lparr>trace := trace w @ ?events @ [EndGroup]\<rparr>)"
        by (simp add: runDeployment_def Let_def emit_def)
      then show ?thesis by (rule final) (use early in simp_all)
    qed
  qed
qed

theorem timeout_wins_race_witness:
  "runDeployment (runner agent_ok passing_deploy) ''vendor/bin/dep'' ''production'' ''abc123'' ''.'' [] []
     (Some (Num 1000)) deployed =
   Some (Inl (DeploymentTimeout (Num 1000)),
         deployed\<lparr>trace := trace deployed @
           [StartGroup ''Deploying to production'', SetTimeout (Num 1000),
            Exec ''vendor/bin/dep'' [''deploy'', ''production'', ''--revision=abc123''],
            ClearTimeout]\<rparr>)"
proof -
  have late: "settles (deploy (runner agent_ok passing_deploy)) = Some (1500, Resolves 0)"
    by (simp add: runner_sel passing_deploy_def)
  have args: "deploy_args ''production'' ''abc123'' [] [] = [''deploy'', ''production'', ''--revision=abc123'']"
    by (simp add: deploy_args_def)
  from timeout_wins_race [of 1000 "runner agent_ok passing_deploy" "''vendor/bin/dep''"
      "''production''" "''abc123''" "''.''" "[]" "[]" deployed]
  show ?thesis unfolding late args by auto
qed

section \<open>The environment after cleanup\<close>

text \<open>
  C10.  \<open>cleanupSSH\<close> leaves the process environment as it finds it.  So a run in which
  \<open>setupSSH\<close> returned the config path \<open>cfg\<close> ends with \<open>SSH_AUTH_SOCK\<close> and
  \<open>SSH_AGENT_PID\<close> still set and with \<open>GIT_SSH_COMMAND\<close> still \<open>ssh -F cfg\<close>, while no
  file is left at \<open>cfg\<close>.
\<close>

theorem cleanup_keeps_environment:
  "env (cleanupSSH pf c w0) = env w0
   \<and> (getInputs pf = Inr inputs \<longrightarrow>
      setupSSH pf (sshPrivateKey inputs) (sshKnownHosts inputs) (sshPort inputs) w = (Inr cfg, w1) \<longrightarrow>
      run pf w = Some w' \<longrightarrow>
        env w' ''GIT_SSH_COMMAND'' = Some (''ssh -F '' @ cfg)
        \<and> env w' ''SSH_AUTH_SOCK'' \<noteq> None
        \<and> env w' ''SSH_AGENT_PID'' \<noteq> None
        \<and> map_of (files w') (abs_path pf cfg) = None)"
proof (intro conjI impI)
  show "env (cleanupSSH pf c w0) = env w0" by (rule cleanupSSH_same)
next
  assume i: "getInputs pf = Inr inputs"
    and s: "setupSSH pf (sshPrivateKey inputs) (sshKnownHosts inputs) (sshPort inputs) w = (Inr cfg, w1)"
    and r: "run pf w = Some w'"
  note e = run_env [OF i s r]
  show "env w' ''GIT_SSH_COMMAND'' = Some (''ssh -F '' @ cfg)"
    using setupSSH_success(3) [OF s] e(1) by simp
  show "env w' ''SSH_AUTH_SOCK'' \<noteq> None"
    using setupSSH_success(4) [OF s] e(1) by auto
  show "env w' ''SSH_AGENT_PID'' \<noteq> None"
    using setupSSH_success(5) [OF s] e(1) by auto
  show "map_of (files w') (abs_path pf cfg) = None"
    by (rule e(2))
qed

theorem cleanup_keeps_environment_witness:
  "env (the (run (runner agent_ok passing_deploy) checkout)) ''GIT_SSH_COMMAND'' =
     Some ''ssh -F /tmp/ssh_config_deployer_1700000000000''
   \<and> env (the (run (runner agent_ok passing_deploy) checkout)) ''SSH_AUTH_SOCK'' \<noteq> None
   \<and> env (the (run (runner agent_ok passing_deploy) checkout)) ''SSH_AGENT_PID'' \<noteq> None
   \<and> map_of (files (the (run (runner agent_ok passing_deploy) checkout)))
        ''/tmp/ssh_config_deployer_1700000000000'' = None"
proof -
  let ?pf = "runner agent_ok passing_deploy"
  let ?inputs = "\<lparr>sshPrivateKey = ''KEY'', environment = ''production'', revision = ''abc123'',
          deployerBinary = ''vendor/bin/dep'', sshKnownHosts = [], sshPort = ''22'',
          workingDirectory = ''.'', verbosity = [], options = [], timeout = []\<rparr>"
  have i: "getInputs ?pf = Inr ?inputs" by (rule getInputs_runner)
  have s: "setupSSH ?pf (sshPrivateKey ?inputs) (sshKnownHosts ?inputs) (sshPort ?inputs) checkout =
      (Inr ''/tmp/ssh_config_deployer_1700000000000'', agent_added)"
    using setupSSH_runner [of passing_deploy] by simp
  have r: "run ?pf checkout = Some (the (run ?pf checkout))"
    by (simp add: run_passing_deploy)
  have a: "abs_path ?pf ''/tmp/ssh_config_deployer_1700000000000'' = ''/tmp/ssh_config_deployer_1700000000000''"
    by (simp add: abs_path_def runner_sel runner_abs)
  from cleanup_keeps_environment [of ?pf None checkout ?inputs checkout
      "''/tmp/ssh_config_deployer_1700000000000''" agent_added "the (run ?pf checkout)"]
    i s r a
  show ?thesis by simp
qed

end
